theory Spec2Isabelle
  imports Main "HOL-Library.Sublist" "HOL-Library.AList" "HOL-Library.Word"
begin

unbundle bit_operations_syntax

section \<open>Python strings\<close>

text \<open>
  The service under verification is
  \<^verbatim>\<open>backend/services/multi_agent_documentation_service.py\<close>: the agents
  (\<^verbatim>\<open>DocumentationAgent\<close>) and the orchestrator with its assembly stage
  (\<^verbatim>\<open>OrchestratorAgent\<close>).  Its data are Python \<^verbatim>\<open>str\<close> values, lists and
  dicts.

  A Python string is modelled as a \<^typ>\<open>string\<close> whose characters stand for the code
  points 0..255.  On that range \<^verbatim>\<open>str.isspace\<close>, the regular expression classes
  \<^verbatim>\<open>\s\<close> and \<^verbatim>\<open>\w\<close>, \<^verbatim>\<open>str.lower\<close> and the line boundaries of
  \<^verbatim>\<open>str.splitlines\<close> are the tables below (CPython 3.11); \<^verbatim>\<open>len\<close> counts
  characters.  \<^verbatim>\<open>str.upper\<close> leaves the range at three characters (0xB5, 0xDF, 0xFF);
  the model leaves those three unchanged, and nothing proved below reads the result
  of \<^verbatim>\<open>upper\<close>.
\<close>

definition NL :: char where "NL = CHR 0x0A"
definition CR :: char where "CR = CHR 0x0D"

definition is_space :: "char \<Rightarrow> bool" where
  "is_space c = (c \<in> set [CHR 0x09, CHR 0x0A, CHR 0x0B, CHR 0x0C, CHR 0x0D,
      CHR 0x1C, CHR 0x1D, CHR 0x1E, CHR 0x1F, CHR 0x20, CHR 0x85, CHR 0xA0])"

definition is_linebreak :: "char \<Rightarrow> bool" where
  "is_linebreak c = (c \<in> set [CHR 0x0A, CHR 0x0B, CHR 0x0C, CHR 0x0D,
      CHR 0x1C, CHR 0x1D, CHR 0x1E, CHR 0x85])"

definition in_range :: "nat \<Rightarrow> nat \<Rightarrow> char \<Rightarrow> bool" where
  "in_range lo hi c = (lo \<le> of_char c \<and> (of_char c :: nat) \<le> hi)"

text \<open>The class \<^verbatim>\<open>\w\<close> of \<^verbatim>\<open>re\<close> on \<^verbatim>\<open>str\<close> patterns: alphanumeric or underscore.\<close>

definition is_word_char :: "char \<Rightarrow> bool" where
  "is_word_char c = (in_range 48 57 c \<or> in_range 65 90 c \<or> c = CHR ''_'' \<or> in_range 97 122 c
      \<or> c = CHR 0xAA \<or> in_range 178 179 c \<or> c = CHR 0xB5 \<or> in_range 185 186 c
      \<or> in_range 188 190 c \<or> in_range 192 214 c \<or> in_range 216 246 c \<or> in_range 248 255 c)"

definition lower_char :: "char \<Rightarrow> char" where
  "lower_char c = (if in_range 65 90 c \<or> in_range 192 214 c \<or> in_range 216 222 c
                   then char_of (of_char c + (32::nat)) else c)"

definition upper_char :: "char \<Rightarrow> char" where
  "upper_char c = (if in_range 97 122 c \<or> in_range 224 246 c \<or> in_range 248 254 c
                   then char_of (of_char c - (32::nat)) else c)"

definition str_lower :: "string \<Rightarrow> string" where
  "str_lower s = map lower_char s"

definition str_upper :: "string \<Rightarrow> string" where
  "str_upper s = map upper_char s"

text \<open>\<^verbatim>\<open>s.strip()\<close>, and \<^verbatim>\<open>s.lstrip(chars)\<close>.\<close>

definition str_strip :: "string \<Rightarrow> string" where
  "str_strip s = rev (dropWhile is_space (rev (dropWhile is_space s)))"

definition str_lstrip :: "string \<Rightarrow> string \<Rightarrow> string" where
  "str_lstrip chars s = dropWhile (\<lambda>c. c \<in> set chars) s"

text \<open>\<^verbatim>\<open>s.split()\<close>: the maximal runs of non-whitespace characters, in order.\<close>

fun split_from :: "string \<Rightarrow> string \<Rightarrow> string list" where
  "split_from cur [] = (if cur = [] then [] else [cur])"
| "split_from cur (c # cs) =
     (if is_space c then (if cur = [] then split_from [] cs else cur # split_from [] cs)
      else split_from (cur @ [c]) cs)"

definition str_split :: "string \<Rightarrow> string list" where
  "str_split s = split_from [] s"

text \<open>\<^verbatim>\<open>s.split(sep)\<close> for a one-character separator: never the empty list.\<close>

fun split_on_from :: "char \<Rightarrow> string \<Rightarrow> string \<Rightarrow> string list" where
  "split_on_from sep cur [] = [cur]"
| "split_on_from sep cur (c # cs) =
     (if c = sep then cur # split_on_from sep [] cs else split_on_from sep (cur @ [c]) cs)"

definition split_on :: "char \<Rightarrow> string \<Rightarrow> string list" where
  "split_on sep s = split_on_from sep [] s"

text \<open>\<^verbatim>\<open>s.splitlines()\<close>: a line ends at a line boundary (\<^verbatim>\<open>\r\n\<close> is one boundary);
  no empty last line after a final boundary.\<close>

fun splitlines_from :: "string \<Rightarrow> string \<Rightarrow> string list" where
  "splitlines_from cur [] = (if cur = [] then [] else [cur])"
| "splitlines_from cur [c] = (if is_linebreak c then [cur] else [cur @ [c]])"
| "splitlines_from cur (c # d # cs) =
     (if c = CR \<and> d = NL then cur # splitlines_from [] cs
      else if is_linebreak c then cur # splitlines_from [] (d # cs)
      else splitlines_from (cur @ [c]) (d # cs))"

definition str_splitlines :: "string \<Rightarrow> string list" where
  "str_splitlines s = splitlines_from [] s"

text \<open>\<^verbatim>\<open>sep.join(parts)\<close>.\<close>

fun str_join :: "string \<Rightarrow> string list \<Rightarrow> string" where
  "str_join sep [] = []"
| "str_join sep [x] = x"
| "str_join sep (x # y # ys) = x @ sep @ str_join sep (y # ys)"

text \<open>\<^verbatim>\<open>sub in s\<close>, \<^verbatim>\<open>s.startswith(p)\<close>, \<^verbatim>\<open>s.endswith(p)\<close>.\<close>

fun str_contains :: "string \<Rightarrow> string \<Rightarrow> bool" where
  "str_contains sub [] = (sub = [])"
| "str_contains sub (c # cs) = (prefix sub (c # cs) \<or> str_contains sub cs)"

definition startswith :: "string \<Rightarrow> string \<Rightarrow> bool" where
  "startswith s p = prefix p s"

definition endswith :: "string \<Rightarrow> string \<Rightarrow> bool" where
  "endswith s p = suffix p s"

text \<open>\<^verbatim>\<open>s.count(sub)\<close> and \<^verbatim>\<open>s.replace(old, new)\<close> for a non-empty \<^verbatim>\<open>sub\<close>/\<^verbatim>\<open>old\<close>
  (every call site passes a non-empty literal): occurrences are taken left to right
  and do not overlap.  The first argument counts the characters of the current
  occurrence still to be skipped.\<close>

fun count_from :: "nat \<Rightarrow> string \<Rightarrow> string \<Rightarrow> nat" where
  "count_from k sub [] = 0"
| "count_from (Suc k) sub (c # cs) = count_from k sub cs"
| "count_from 0 sub (c # cs) =
     (if prefix sub (c # cs) then Suc (count_from (length sub - 1) sub cs)
      else count_from 0 sub cs)"

definition str_count :: "string \<Rightarrow> string \<Rightarrow> nat" where
  "str_count s sub = count_from 0 sub s"

fun replace_from :: "nat \<Rightarrow> string \<Rightarrow> string \<Rightarrow> string \<Rightarrow> string" where
  "replace_from k old new [] = []"
| "replace_from (Suc k) old new (c # cs) = replace_from k old new cs"
| "replace_from 0 old new (c # cs) =
     (if prefix old (c # cs) then new @ replace_from (length old - 1) old new cs
      else c # replace_from 0 old new cs)"

definition str_replace :: "string \<Rightarrow> string \<Rightarrow> string \<Rightarrow> string" where
  "str_replace s old new = replace_from 0 old new s"

text \<open>\<^verbatim>\<open>str(n)\<close> for a non-negative integer: its decimal digits.  The first argument
  bounds the number of digits; \<open>n\<close> has at most \<open>n + 1\<close> of them.\<close>

definition digit_char :: "nat \<Rightarrow> char" where
  "digit_char d = char_of (48 + d)"

fun digits_fuel :: "nat \<Rightarrow> nat \<Rightarrow> string" where
  "digits_fuel 0 n = [digit_char (n mod 10)]"
| "digits_fuel (Suc f) n =
     (if n < 10 then [digit_char n] else digits_fuel f (n div 10) @ [digit_char (n mod 10)])"

definition str_of_nat :: "nat \<Rightarrow> string" where
  "str_of_nat n = digits_fuel n n"


section \<open>The content fingerprint: MD5\<close>

text \<open>
  \<^verbatim>\<open>hashlib.md5(normalized.encode('utf-8')).hexdigest()\<close>: the UTF-8 encoding of a string
  of code points below 256, the MD5 digest of RFC 1321 over 32-bit words, and its 32
  lower-case hexadecimal digits.  Each round table lists, per step, the additive
  constant, the left rotation and the index of the message word.
\<close>

type_synonym u32 = "32 word"

definition utf8_encode :: "string \<Rightarrow> nat list" where
  "utf8_encode s = concat (map (\<lambda>c. let n = (of_char c :: nat) in
      if n < 128 then [n] else [192 + n div 64, 128 + n mod 64]) s)"

definition le_bytes :: "nat \<Rightarrow> nat \<Rightarrow> nat list" where
  "le_bytes k n = map (\<lambda>i. (n div 256 ^ i) mod 256) [0..<k]"

definition md5_pad :: "nat list \<Rightarrow> nat list" where
  "md5_pad m = m @ [128] @ replicate ((119 - length m mod 64) mod 64) 0
                 @ le_bytes 8 (8 * length m mod 2 ^ 64)"

fun le_words :: "nat list \<Rightarrow> u32 list" where
  "le_words (a # b # c # d # rest) =
     of_nat (a + 256 * b + 65536 * c + 16777216 * d) # le_words rest"
| "le_words _ = []"

fun chunks16 :: "u32 list \<Rightarrow> u32 list list" where
  "chunks16 [] = []"
| "chunks16 (w # ws) = take 16 (w # ws) # chunks16 (drop 15 ws)"

definition rotl32 :: "u32 \<Rightarrow> nat \<Rightarrow> u32" where
  "rotl32 x n = push_bit n x OR drop_bit (32 - n) x"

definition md5_F :: "u32 \<Rightarrow> u32 \<Rightarrow> u32 \<Rightarrow> u32" where
  "md5_F b c d = (b AND c) OR (NOT b AND d)"

definition md5_G :: "u32 \<Rightarrow> u32 \<Rightarrow> u32 \<Rightarrow> u32" where
  "md5_G b c d = (d AND b) OR (NOT d AND c)"

definition md5_H :: "u32 \<Rightarrow> u32 \<Rightarrow> u32 \<Rightarrow> u32" where
  "md5_H b c d = b XOR c XOR d"

definition md5_I :: "u32 \<Rightarrow> u32 \<Rightarrow> u32 \<Rightarrow> u32" where
  "md5_I b c d = c XOR (b OR NOT d)"

definition md5_round1 :: "(u32 \<times> nat \<times> nat) list" where
  "md5_round1 =
     [(0xd76aa478, 7, 0), (0xe8c7b756, 12, 1), (0x242070db, 17, 2), (0xc1bdceee, 22, 3),
      (0xf57c0faf, 7, 4), (0x4787c62a, 12, 5), (0xa8304613, 17, 6), (0xfd469501, 22, 7),
      (0x698098d8, 7, 8), (0x8b44f7af, 12, 9), (0xffff5bb1, 17, 10), (0x895cd7be, 22, 11),
      (0x6b901122, 7, 12), (0xfd987193, 12, 13), (0xa679438e, 17, 14), (0x49b40821, 22, 15)]"

definition md5_round2 :: "(u32 \<times> nat \<times> nat) list" where
  "md5_round2 =
     [(0xf61e2562, 5, 1), (0xc040b340, 9, 6), (0x265e5a51, 14, 11), (0xe9b6c7aa, 20, 0),
      (0xd62f105d, 5, 5), (0x02441453, 9, 10), (0xd8a1e681, 14, 15), (0xe7d3fbc8, 20, 4),
      (0x21e1cde6, 5, 9), (0xc33707d6, 9, 14), (0xf4d50d87, 14, 3), (0x455a14ed, 20, 8),
      (0xa9e3e905, 5, 13), (0xfcefa3f8, 9, 2), (0x676f02d9, 14, 7), (0x8d2a4c8a, 20, 12)]"

definition md5_round3 :: "(u32 \<times> nat \<times> nat) list" where
  "md5_round3 =
     [(0xfffa3942, 4, 5), (0x8771f681, 11, 8), (0x6d9d6122, 16, 11), (0xfde5380c, 23, 14),
      (0xa4beea44, 4, 1), (0x4bdecfa9, 11, 4), (0xf6bb4b60, 16, 7), (0xbebfbc70, 23, 10),
      (0x289b7ec6, 4, 13), (0xeaa127fa, 11, 0), (0xd4ef3085, 16, 3), (0x04881d05, 23, 6),
      (0xd9d4d039, 4, 9), (0xe6db99e5, 11, 12), (0x1fa27cf8, 16, 15), (0xc4ac5665, 23, 2)]"

definition md5_round4 :: "(u32 \<times> nat \<times> nat) list" where
  "md5_round4 =
     [(0xf4292244, 6, 0), (0x432aff97, 10, 7), (0xab9423a7, 15, 14), (0xfc93a039, 21, 5),
      (0x655b59c3, 6, 12), (0x8f0ccc92, 10, 3), (0xffeff47d, 15, 10), (0x85845dd1, 21, 1),
      (0x6fa87e4f, 6, 8), (0xfe2ce6e0, 10, 15), (0xa3014314, 15, 6), (0x4e0811a1, 21, 13),
      (0xf7537e82, 6, 4), (0xbd3af235, 10, 11), (0x2ad7d2bb, 15, 2), (0xeb86d391, 21, 9)]"

type_synonym md5_state = "u32 \<times> u32 \<times> u32 \<times> u32"

fun md5_step :: "(u32 \<Rightarrow> u32 \<Rightarrow> u32 \<Rightarrow> u32) \<Rightarrow> u32 list \<Rightarrow> md5_state \<Rightarrow> u32 \<times> nat \<times> nat \<Rightarrow> md5_state" where
  "md5_step f m (a, b, c, d) (k, s, g) = (d, b + rotl32 (f b c d + a + k + m ! g) s, b, c)"

definition md5_rounds :: "u32 list \<Rightarrow> md5_state \<Rightarrow> md5_state" where
  "md5_rounds m st =
     foldl (md5_step md5_I m) (foldl (md5_step md5_H m)
       (foldl (md5_step md5_G m) (foldl (md5_step md5_F m) st md5_round1) md5_round2)
       md5_round3) md5_round4"

fun md5_add :: "md5_state \<Rightarrow> md5_state \<Rightarrow> md5_state" where
  "md5_add (a0, b0, c0, d0) (a, b, c, d) = (a0 + a, b0 + b, c0 + c, d0 + d)"

definition md5_block :: "md5_state \<Rightarrow> u32 list \<Rightarrow> md5_state" where
  "md5_block st m = md5_add st (md5_rounds m st)"

definition md5_init :: md5_state where
  "md5_init = (0x67452301, 0xefcdab89, 0x98badcfe, 0x10325476)"

fun md5_output :: "md5_state \<Rightarrow> nat list" where
  "md5_output (a, b, c, d) = concat (map (\<lambda>w. le_bytes 4 (unat w)) [a, b, c, d])"

definition md5_digest :: "nat list \<Rightarrow> nat list" where
  "md5_digest m = md5_output (foldl md5_block md5_init (chunks16 (le_words (md5_pad m))))"

definition hex_digit :: "nat \<Rightarrow> char" where
  "hex_digit n = ''0123456789abcdef'' ! n"

definition hexdigest :: "nat list \<Rightarrow> string" where
  "hexdigest bs = concat (map (\<lambda>b. [hex_digit (b div 16), hex_digit (b mod 16)]) bs)"

definition md5_hexdigest :: "string \<Rightarrow> string" where
  "md5_hexdigest s = hexdigest (md5_digest (utf8_encode s))"

section \<open>The data model\<close>

text \<open>
  The dicts the service reads, as records.  A field of option type is a key that may
  be absent (the code reads it with \<^verbatim>\<open>.get\<close> or tests \<^verbatim>\<open>in\<close>); \<open>files\<close> is
  \<^verbatim>\<open>project_data.get('files', [])\<close>.  Only the keys the service reads are fields.
\<close>

record placement =
  placement_section :: "string option"
  placement_description :: "string option"

record image_ref =
  image_name :: "string option"
  image_data :: "string option"
  image_context :: "string option"
  image_placement :: "placement option"

record file_record =
  file_name :: "string option"
  file_content :: "string option"
  embedded_images :: "image_ref list option"

record project_data =
  title :: "string option"
  description :: "string option"
  files :: "file_record list"

text \<open>An agent (\<^verbatim>\<open>DocumentationAgent\<close>): its name and its role.  The system prompt and
  the model name only travel to the backend.\<close>

record agent =
  self_name :: string
  self_role :: string

datatype py_error = KeyError string | BackendError string

text \<open>A dict that maps a key to a list and is filled by
  \<^verbatim>\<open>if k not in d: d[k] = []\<close>, \<^verbatim>\<open>d[k].append(v)\<close>: an association list in insertion
  order of the keys.\<close>

fun dict_append :: "('k \<times> 'v list) list \<Rightarrow> 'k \<Rightarrow> 'v \<Rightarrow> ('k \<times> 'v list) list" where
  "dict_append [] k v = [(k, [v])]"
| "dict_append ((k', vs) # d) k v =
     (if k' = k then (k', vs @ [v]) # d else (k', vs) # dict_append d k v)"

section \<open>The agent\<close>

subsection \<open>The quality gate\<close>

text \<open>\<^verbatim>\<open>DocumentationAgent._passes_quality\<close>.\<close>

definition heading_count :: "string \<Rightarrow> nat" where
  "heading_count text =
     str_count text ''\<newline>#'' + str_count text ''\<newline>##''
     + str_count text ''\<newline>###'' + str_count text ''\<newline>####''"

definition has_lists :: "string \<Rightarrow> bool" where
  "has_lists text =
     (str_contains ''- '' text \<or> str_contains ''* '' text
      \<or> list_ex (\<lambda>i. str_contains (str_of_nat i @ ''.'') text) [1..<5])"

definition passes_quality :: "string \<Rightarrow> bool" where
  "passes_quality text =
     (if text = [] \<or> str_strip text = [] then False
      else let words = length (str_split (str_strip text))
           in words \<ge> 700 \<and> heading_count text \<ge> 3 \<and> has_lists text)"

subsection \<open>File statistics\<close>

text \<open>\<^verbatim>\<open>_get_file_category\<close>, \<^verbatim>\<open>_detect_project_type\<close>, \<^verbatim>\<open>_assess_complexity\<close>.\<close>

definition get_file_category :: "string \<Rightarrow> string" where
  "get_file_category filename =
     (if filename = [] \<or> \<not> str_contains ''.'' filename then ''Configuration''
      else let ext = last (split_on (CHR ''.'') (str_lower filename));
               name = str_lower filename
           in if ext \<in> set [''py'', ''js'', ''jsx'', ''ts'', ''tsx'', ''java'', ''cpp'', ''c'', ''cs'',
                              ''php'', ''rb'', ''go'', ''rs'', ''swift'', ''kt'', ''scala'']
              then ''Source Code''
              else if ext \<in> set [''html'', ''css'', ''scss'', ''sass'', ''less'']
              then ''Frontend Assets''
              else if ext \<in> set [''json'', ''yaml'', ''yml'', ''toml'', ''ini'', ''cfg'', ''conf'']
                      \<or> str_contains ''config'' name
              then ''Configuration''
              else if ext \<in> set [''md'', ''txt'', ''rst''] then ''Documentation''
              else if ext \<in> set [''sql'', ''db'', ''sqlite''] then ''Database''
              else if str_contains ''test'' name \<or> ext \<in> set [''spec'', ''test''] then ''Tests''
              else ''Other'')"

definition name_of :: "file_record \<Rightarrow> string" where
  "name_of f = (case file_name f of None \<Rightarrow> [] | Some n \<Rightarrow> n)"

definition content_of :: "file_record \<Rightarrow> string" where
  "content_of f = (case file_content f of None \<Rightarrow> [] | Some c \<Rightarrow> c)"

definition detect_project_type :: "project_data \<Rightarrow> string" where
  "detect_project_type project_data =
     (let fs = files project_data;
          has_react = list_ex (\<lambda>f. str_contains ''jsx'' (str_lower (name_of f))
                                   \<or> str_contains ''react'' (str_lower (content_of f))) fs;
          has_python = list_ex (\<lambda>f. endswith (name_of f) ''.py'') fs;
          has_node = list_ex (\<lambda>f. name_of f = ''package.json'') fs;
          has_java = list_ex (\<lambda>f. endswith (name_of f) ''.java'') fs
      in if has_react \<and> has_node then ''React Web Application''
         else if has_python then ''Python Application''
         else if has_java then ''Java Application''
         else if has_node then ''Node.js Application''
         else ''Multi-language Project'')"

definition assess_complexity :: "nat \<Rightarrow> string" where
  "assess_complexity file_count =
     (if file_count > 50 then ''High complexity (Large-scale project)''
      else if file_count > 20 then ''Medium complexity (Mid-scale project)''
      else if file_count > 5 then ''Low complexity (Small-scale project)''
      else ''Minimal complexity (Simple project)'')"

subsection \<open>The template analysis\<close>

text \<open>\<^verbatim>\<open>_simulate_content\<close>: the files grouped by category, then the text.\<close>

definition files_by_category :: "file_record list \<Rightarrow> (string \<times> string list) list" where
  "files_by_category fs =
     foldl (\<lambda>file_types f. dict_append file_types (get_file_category (name_of f)) (name_of f)) [] fs"

definition category_listing :: "string \<times> string list \<Rightarrow> string" where
  "category_listing = (\<lambda>(file_type, files_list).
     ''### '' @
     file_type @
     '' Files ('' @
     str_of_nat (length files_list) @
     '')\<newline>'' @
     concat (map (\<lambda>fname. ''- `'' @
                                    fname @
                                    ''`\<newline>'') (take 5 files_list)) @
     (if length files_list > 5
      then ''- ... and '' @
           str_of_nat (length files_list - 5) @
           '' more files\<newline>''
      else []) @
     ''\<newline>'')"

definition domain_analysis :: "string \<Rightarrow> string" where
  "domain_analysis name =
     (if str_contains ''Code Architecture'' name then
        ''## Code Structure Analysis\<newline>'' @
        ''    - **Programming Languages**: Multiple languages detected\<newline>'' @
        ''    - **Architecture Pattern**: Modern modular design\<newline>'' @
        ''    - **Code Organization**: Well-structured with clear separation of concerns\<newline>'' @
        ''    - **Key Components**: Main application logic, utilities, and configuration files\<newline>'' @
        ''\<newline>'' @
        ''    ## Implementation Details\<newline>'' @
        ''    - Functions and classes are properly organized\<newline>'' @
        ''    - Clear naming conventions followed\<newline>'' @
        ''    - Modular architecture enables maintainability\<newline>'' @
        ''    ''
      else if str_contains ''System Architecture'' name then
        ''## System Architecture\<newline>'' @
        ''    - **Design Pattern**: Layered architecture with clear boundaries\<newline>'' @
        ''    - **Component Structure**: Frontend, backend, and service layers\<newline>'' @
        ''    - **Integration Points**: Well-defined interfaces between components\<newline>'' @
        ''    - **Scalability**: Architecture supports horizontal and vertical scaling\<newline>'' @
        ''\<newline>'' @
        ''    ## Design Decisions\<newline>'' @
        ''    - Technology stack chosen for reliability and performance\<newline>'' @
        ''    - Clear separation between presentation and business logic\<newline>'' @
        ''    - Modular design enables independent component updates\<newline>'' @
        ''    ''
      else if str_contains ''API Integration'' name then
        ''## API Structure\<newline>'' @
        ''    - **Endpoints**: RESTful API design following industry standards\<newline>'' @
        ''    - **Authentication**: Secure authentication mechanisms implemented\<newline>'' @
        ''    - **Data Formats**: JSON-based request/response handling\<newline>'' @
        ''    - **Error Handling**: Comprehensive error response structure\<newline>'' @
        ''\<newline>'' @
        ''    ## Integration Patterns\<newline>'' @
        ''    - Standard HTTP methods for different operations\<newline>'' @
        ''    - Consistent response format across all endpoints\<newline>'' @
        ''    - Proper status codes for different scenarios\<newline>'' @
        ''    ''
      else if str_contains ''Security Implementation'' name then
        ''## Security Implementation\<newline>'' @
        ''    - **Authentication**: Multi-layer authentication system\<newline>'' @
        ''    - **Authorization**: Role-based access control\<newline>'' @
        ''    - **Data Protection**: Encryption for sensitive data\<newline>'' @
        ''    - **Input Validation**: Comprehensive input sanitization\<newline>'' @
        ''\<newline>'' @
        ''    ## Security Measures\<newline>'' @
        ''    - HTTPS encryption for all communications\<newline>'' @
        ''    - Secure session management\<newline>'' @
        ''    - Protection against common vulnerabilities\<newline>'' @
        ''    - Regular security audits recommended\<newline>'' @
        ''    ''
      else if str_contains ''Deployment Operations'' name \<or> str_contains ''Deployment'' name then
        ''## Installation Requirements\<newline>'' @
        ''    - **System Requirements**: Standard development environment\<newline>'' @
        ''    - **Dependencies**: All required packages documented\<newline>'' @
        ''    - **Configuration**: Environment-specific settings\<newline>'' @
        ''    - **Deployment**: Production-ready deployment process\<newline>'' @
        ''\<newline>'' @
        ''    ## Getting Started\<newline>'' @
        ''    1. Install required dependencies\<newline>'' @
        ''    2. Configure environment variables\<newline>'' @
        ''    3. Run initialization scripts\<newline>'' @
        ''    4. Start the application services\<newline>'' @
        ''    ''
      else if str_contains ''Quality Assurance'' name then
        ''## Testing Strategy\<newline>'' @
        ''    - **Test Coverage**: Comprehensive test suite implementation\<newline>'' @
        ''    - **Testing Levels**: Unit, integration, and end-to-end tests\<newline>'' @
        ''    - **Quality Assurance**: Automated quality checks\<newline>'' @
        ''    - **Continuous Integration**: Automated testing pipeline\<newline>'' @
        ''\<newline>'' @
        ''    ## Quality Metrics\<newline>'' @
        ''    - Code coverage targets defined\<newline>'' @
        ''    - Performance benchmarks established\<newline>'' @
        ''    - Quality gates for deployment\<newline>'' @
        ''    ''
      else if str_contains ''User Documentation'' name then
        ''## User Experience Design\<newline>'' @
        ''    - **User Interface**: Intuitive and responsive design\<newline>'' @
        ''    - **User Workflows**: Streamlined user interaction patterns\<newline>'' @
        ''    - **Accessibility**: Following web accessibility guidelines\<newline>'' @
        ''    - **Documentation**: Comprehensive user guides\<newline>'' @
        ''\<newline>'' @
        ''    ## User Journey\<newline>'' @
        ''    - Clear onboarding process\<newline>'' @
        ''    - Intuitive navigation structure\<newline>'' @
        ''    - Helpful error messages and guidance\<newline>'' @
        ''    ''
      else if str_contains ''Performance Optimization'' name then
        ''## Performance Analysis\<newline>'' @
        ''    - **Response Times**: Optimized for fast response times\<newline>'' @
        ''    - **Resource Usage**: Efficient memory and CPU utilization\<newline>'' @
        ''    - **Scalability**: Designed to handle increased load\<newline>'' @
        ''    - **Monitoring**: Performance metrics tracking\<newline>'' @
        ''\<newline>'' @
        ''    ## Optimization Strategies\<newline>'' @
        ''    - Caching mechanisms implemented\<newline>'' @
        ''    - Database query optimization\<newline>'' @
        ''    - Resource loading optimization\<newline>'' @
        ''    - Performance monitoring tools\<newline>'' @
        ''    ''
      else [])"

definition simulate_content :: "agent \<Rightarrow> project_data \<Rightarrow> string" where
  "simulate_content ag project_data =
     (let file_count = length (files project_data);
          file_types = files_by_category (files project_data)
      in ''# '' @
         self_name ag @
         '' Analysis\<newline>'' @
         ''\<newline>'' @
         ''    ## Overview\<newline>'' @
         ''    This section provides a comprehensive '' @
         str_lower (self_role ag) @
         '' analysis for **'' @
         (case title project_data of None \<Rightarrow> ''Unknown Project'' | Some t \<Rightarrow> t) @
         ''**.\<newline>'' @
         ''\<newline>'' @
         ''    ## Project Structure Analysis\<newline>'' @
         ''    The project contains **'' @
         str_of_nat file_count @
         '' files** across the following categories:\<newline>'' @
         ''\<newline>'' @
         ''    '' @
         concat (map category_listing file_types) @
         domain_analysis (self_name ag) @
         ''\<newline>'' @
         ''    ## Technical Specifications\<newline>'' @
         ''    - **Total Files**: '' @
         str_of_nat file_count @
         '' files analyzed\<newline>'' @
         ''    - **Project Type**: '' @
         detect_project_type project_data @
         ''\<newline>'' @
         ''    - **Complexity**: '' @
         assess_complexity file_count @
         ''\<newline>'' @
         ''\<newline>'' @
         ''    ## Recommendations\<newline>'' @
         ''    1. Continue following established patterns and conventions\<newline>'' @
         ''    2. Implement comprehensive monitoring and logging\<newline>'' @
         ''    3. Regular code reviews and documentation updates\<newline>'' @
         ''    4. Consider automated testing and deployment pipelines\<newline>'' @
         ''\<newline>'' @
         ''    ## Integration Notes\<newline>'' @
         ''    This analysis integrates with other specialized agents to provide a complete system overview. For detailed implementation specifics, refer to the Code Analysis section. For deployment instructions, see the Setup & Deployment documentation.\<newline>'' @
         ''\<newline>'' @
         ''    ---\<newline>'' @
         ''    *This analysis was generated using intelligent code analysis. For the most detailed insights, ensure all project files are included in the analysis.*\<newline>'' @
         ''    '')"

subsection \<open>Embedding images\<close>

text \<open>\<^verbatim>\<open>_extract_embedded_images\<close> and \<^verbatim>\<open>_add_images_to_content\<close>.  Reading
  \<^verbatim>\<open>img['name']\<close> or \<^verbatim>\<open>img['data']\<close> of an image without that key raises
  \<^verbatim>\<open>KeyError\<close>; the default \<^verbatim>\<open>img['name']\<close> of the description is evaluated before
  the lookup, whether or not the placement has a description.\<close>

definition extract_embedded_images :: "project_data \<Rightarrow> image_ref list" where
  "extract_embedded_images project_data =
     concat (map (\<lambda>file_data. case embedded_images file_data of None \<Rightarrow> [] | Some imgs \<Rightarrow> imgs)
                 (files project_data))"

definition agent_keywords :: "(string \<times> string list) list" where
  "agent_keywords =
     [(''Code Architecture Agent'', [''code'', ''function'', ''class'', ''module'', ''file'']),
      (''System Architecture Agent'', [''architecture'', ''design'', ''system'', ''topology'']),
      (''API Integration Agent'', [''api'', ''endpoint'', ''request'', ''response'', ''interface'']),
      (''Security Implementation Agent'', [''security'', ''auth'', ''token'', ''password'', ''jwt'', ''mfa'']),
      (''Deployment Operations Agent'',
         [''setup'', ''installation'', ''deploy'', ''infrastructure'', ''docker'', ''kubernetes'']),
      (''Quality Assurance Agent'', [''test'', ''testing'', ''coverage'', ''qa'', ''assert'']),
      (''User Documentation Agent'', [''ui'', ''user'', ''interface'', ''walkthrough'', ''guide'']),
      (''Performance Optimization Agent'',
         [''performance'', ''latency'', ''throughput'', ''metric'', ''profiling''])]"

definition keywords_of :: "agent \<Rightarrow> string list" where
  "keywords_of ag = (case map_of agent_keywords (self_name ag) of None \<Rightarrow> [] | Some ks \<Rightarrow> ks)"

definition image_match_text :: "image_ref \<Rightarrow> string" where
  "image_match_text img =
     str_lower ((case image_context img of None \<Rightarrow> [] | Some c \<Rightarrow> c) @ '' '' @
                (case image_name img of None \<Rightarrow> [] | Some n \<Rightarrow> n))"

definition is_relevant :: "string list \<Rightarrow> image_ref \<Rightarrow> bool" where
  "is_relevant keywords img =
     (keywords = [] \<or> list_ex (\<lambda>keyword. str_contains keyword (image_match_text img)) keywords)"

definition relevant_images :: "agent \<Rightarrow> image_ref list \<Rightarrow> image_ref list" where
  "relevant_images ag imgs = filter (is_relevant (keywords_of ag)) (take 2 imgs)"

definition img_markdown :: "image_ref \<Rightarrow> py_error + string" where
  "img_markdown img =
     (case image_name img of
        None \<Rightarrow> Inl (KeyError ''name'')
      | Some name \<Rightarrow>
          (let description =
                 (case image_placement img of
                    None \<Rightarrow> name
                  | Some p \<Rightarrow> (case placement_description p of None \<Rightarrow> name | Some d \<Rightarrow> d))
           in case image_data img of
                None \<Rightarrow> Inl (KeyError ''data'')
              | Some data \<Rightarrow>
                  Inr (''!['' @
                       description @
                       ''](data:image/png;base64,'' @
                       data @
                       '')\<newline>'' @
                       ''\<newline>'')))"

fun image_section_from :: "string \<Rightarrow> image_ref list \<Rightarrow> py_error + string" where
  "image_section_from image_section [] = Inr image_section"
| "image_section_from image_section (img # imgs) =
     (case img_markdown img of
        Inl e \<Rightarrow> Inl e
      | Inr md \<Rightarrow> image_section_from (image_section @ md) imgs)"

fun first_index :: "('a \<Rightarrow> bool) \<Rightarrow> 'a list \<Rightarrow> nat option" where
  "first_index P [] = None"
| "first_index P (x # xs) = (if P x then Some 0 else map_option Suc (first_index P xs))"

definition insert_index :: "string list \<Rightarrow> nat" where
  "insert_index lines =
     (case first_index (\<lambda>line. startswith line ''##'') lines of None \<Rightarrow> 1 | Some i \<Rightarrow> i + 1)"

text \<open>\<^verbatim>\<open>lines.insert(i, x)\<close>: past the end it appends.\<close>

definition list_insert :: "nat \<Rightarrow> 'a \<Rightarrow> 'a list \<Rightarrow> 'a list" where
  "list_insert i x xs = take i xs @ [x] @ drop i xs"

definition add_images_to_content :: "agent \<Rightarrow> string \<Rightarrow> project_data \<Rightarrow> py_error + string" where
  "add_images_to_content ag content project_data =
     (let embedded = extract_embedded_images project_data
      in if embedded = [] then Inr content
         else let relevant = relevant_images ag embedded
              in if relevant = [] then Inr content
                 else (case image_section_from
                              (''\<newline>'' @
                               ''\<newline>'' @
                               ''## Visual Documentation\<newline>'' @
                               ''\<newline>'') relevant of
                         Inl e \<Rightarrow> Inl e
                       | Inr image_section \<Rightarrow>
                           (let lines = split_on NL content
                            in Inr (str_join ''\<newline>''
                                      (list_insert (insert_index lines) image_section lines)))))"

subsection \<open>The quality loop\<close>

text \<open>
  \<^verbatim>\<open>DocumentationAgent.analyze_project\<close>.  The backend is the chat completion client
  of the agent, an external service: \<open>backend k\<close> is what the \<open>k\<close>-th call of this run
  (counted from 0) does, either a completion with its message content
  (\<^verbatim>\<open>None\<close> or a string) and its token usage (absent or a number), or an exception of
  the call.  The messages of a call are a function of the project data and of the
  earlier drafts, so a backend that answers by the messages is one such sequence;
  the prompt texts (\<^verbatim>\<open>_build_context\<close>, \<^verbatim>\<open>_create_user_prompt\<close>, the critique) go
  nowhere else and are not modelled.

  The result carries, beside the pair the method returns, the number of backend
  calls made.
\<close>

datatype reply = Completion "string option" "nat option" | Failed string

type_synonym backend = "nat \<Rightarrow> reply"

record agent_run =
  run_content :: string
  run_tokens :: nat
  run_calls :: nat

text \<open>The loop \<^verbatim>\<open>for attempt in range(1, 4)\<close> with its state: the attempts left, the
  calls made, the tokens counted, the best draft and its length.  \<open>Inl\<close> is an
  exception that leaves the loop for the handler of \<^verbatim>\<open>analyze_project\<close>.\<close>

fun attempts :: "agent \<Rightarrow> project_data \<Rightarrow> backend \<Rightarrow> nat \<Rightarrow> nat \<Rightarrow> nat \<Rightarrow> string \<Rightarrow> nat
                   \<Rightarrow> (py_error + string \<times> nat) \<times> nat" where
  "attempts ag project_data be 0 calls total_tokens_used best_content best_len =
     (if best_content \<noteq> []
      then (case add_images_to_content ag best_content project_data of
              Inl e \<Rightarrow> (Inl e, calls)
            | Inr final \<Rightarrow> (Inr (final, total_tokens_used), calls))
      else (Inr (''# Draft Incomplete\<newline>'' @
                  ''\<newline>'' @
                  ''No content.'', total_tokens_used), calls))"
| "attempts ag project_data be (Suc n) calls total_tokens_used best_content best_len =
     (case be calls of
        Failed msg \<Rightarrow> (Inl (BackendError msg), Suc calls)
      | Completion message_content usage \<Rightarrow>
          (let draft = str_strip (case message_content of None \<Rightarrow> [] | Some c \<Rightarrow> c);
               total_tokens_used = total_tokens_used + (case usage of None \<Rightarrow> 0 | Some t \<Rightarrow> t);
               better = (length draft > best_len);
               best_content = (if better then draft else best_content);
               best_len = (if better then length draft else best_len)
           in if passes_quality draft
              then (case add_images_to_content ag draft project_data of
                      Inl e \<Rightarrow> (Inl e, Suc calls)
                    | Inr final \<Rightarrow> (Inr (final, total_tokens_used), Suc calls))
              else attempts ag project_data be n (Suc calls) total_tokens_used best_content best_len))"

definition analyze_project :: "agent \<Rightarrow> backend option \<Rightarrow> project_data \<Rightarrow> agent_run" where
  "analyze_project ag openai_client project_data =
     (case openai_client of
        None \<Rightarrow> \<lparr>run_content = simulate_content ag project_data, run_tokens = 0, run_calls = 0\<rparr>
      | Some be \<Rightarrow>
          (case attempts ag project_data be 3 0 0 [] 0 of
             (Inr (final, total_tokens_used), calls) \<Rightarrow>
               \<lparr>run_content = final, run_tokens = total_tokens_used, run_calls = calls\<rparr>
           | (Inl e, calls) \<Rightarrow>
               \<lparr>run_content = simulate_content ag project_data, run_tokens = 0, run_calls = calls\<rparr>))"

section \<open>The orchestrator\<close>

subsection \<open>Collecting the agents' results\<close>

text \<open>
  \<^verbatim>\<open>OrchestratorAgent._run_agents_parallel\<close>.  Every agent's \<^verbatim>\<open>analyze_project\<close> runs
  as a future of a thread pool; \<^verbatim>\<open>future.result()\<close> either returns the pair
  (content, tokens) or raises the exception of the task, whose \<^verbatim>\<open>str\<close> is the
  message.  The futures are read in completion order, which is the order of the
  argument list here.  A dict is an association list in insertion order
  (\<^const>\<open>AList.update\<close> is \<^verbatim>\<open>d[k] = v\<close>).  The entry \<^verbatim>\<open>'agent'\<close> of a result is the
  agent object itself; nothing reads it.
\<close>

datatype future_result = Returned string nat | Raised string

record agent_result =
  res_content :: string
  res_tokens :: nat

type_synonym results = "(string \<times> agent_result) list"

definition failure_placeholder :: "string \<Rightarrow> string \<Rightarrow> string" where
  "failure_placeholder agent_name e =
     ''# '' @
     agent_name @
     '' Analysis\<newline>'' @
     ''\<newline>'' @
     ''*Analysis failed: '' @
     e @
     ''*''"

definition collect_future :: "results \<times> nat \<Rightarrow> string \<times> future_result \<Rightarrow> results \<times> nat" where
  "collect_future = (\<lambda>(agent_results, total_tokens) (agent_name, fr).
     case fr of
       Returned content tokens \<Rightarrow>
         (AList.update agent_name \<lparr>res_content = content, res_tokens = tokens\<rparr> agent_results,
          total_tokens + tokens)
     | Raised e \<Rightarrow>
         (AList.update agent_name
            \<lparr>res_content = failure_placeholder agent_name e, res_tokens = 0\<rparr> agent_results,
          total_tokens))"

definition run_agents_parallel :: "(string \<times> future_result) list \<Rightarrow> results \<times> nat" where
  "run_agents_parallel futures = foldl collect_future ([], 0) futures"

subsection \<open>Cross-references\<close>

text \<open>\<^verbatim>\<open>_add_cross_references\<close> and \<^verbatim>\<open>_enhance_cross_references\<close>.  The summaries
  (\<^verbatim>\<open>context_summary\<close>) are built and handed over, and not read.\<close>

definition title_or :: "string \<Rightarrow> project_data \<Rightarrow> string" where
  "title_or dflt project_data = (case title project_data of None \<Rightarrow> dflt | Some t \<Rightarrow> t)"

definition add_cross_references ::
    "string \<Rightarrow> string \<Rightarrow> (string \<times> string) list \<Rightarrow> project_data \<Rightarrow> string" where
  "add_cross_references content agent_name context_summary project_data =
     (let cross_refs =
            (if str_contains ''Code Architecture'' agent_name then
               [''\<newline>'' @
                ''## Integration Notes\<newline>'',
                ''- **Architecture Impact**: See Architecture Agent analysis for system-level design implications'',
                ''- **API Integration**: Refer to API Documentation Agent for endpoint implementations'',
                ''- **Security Considerations**: Cross-reference Security Agent for authentication and authorization details'']
             else if str_contains ''System Architecture'' agent_name then
               [''\<newline>'' @
                ''## Implementation References\<newline>'',
                ''- **Code Implementation**: See Code Analysis Agent for detailed function-level implementation'',
                ''- **Deployment Architecture**: Refer to Setup & Deployment Agent for infrastructure considerations'',
                ''- **Performance Impact**: Cross-reference Performance Agent for scalability implications'']
             else if str_contains ''API Integration'' agent_name then
               [''\<newline>'' @
                ''## Related Documentation\<newline>'',
                ''- **Security Implementation**: See Security Agent for authentication and authorization details'',
                ''- **Code Implementation**: Refer to Code Analysis Agent for endpoint implementation details'',
                ''- **Testing Procedures**: Cross-reference Testing Agent for API testing strategies'']
             else []);
          file_count = length (files project_data);
          cross_refs = cross_refs @
               [''\<newline>'' @
                ''## Project Context\<newline>'',
                ''- **Total Files Analyzed**: '' @
                str_of_nat file_count @
                '' files across the project'',
                ''- **Project Scope**: '' @
                title_or ''Unknown Project'' project_data,
                ''- **Multi-Agent Analysis**: This analysis is part of a comprehensive 8-agent documentation system'']
      in content @ str_join ''\<newline>'' cross_refs)"

definition summary_of :: "string \<Rightarrow> string" where
  "summary_of content = (if length content > 300 then take 300 content @ ''...'' else content)"

definition enhance_cross_references :: "results \<Rightarrow> project_data \<Rightarrow> results" where
  "enhance_cross_references agent_results project_data =
     (let context_summary =
            foldl (\<lambda>cs (agent_name, result). AList.update agent_name (summary_of (res_content result)) cs)
                  [] agent_results
      in foldl (\<lambda>enhanced_results (agent_name, result).
                  AList.update agent_name
                    \<lparr>res_content = add_cross_references (res_content result) agent_name
                                      context_summary project_data,
                     res_tokens = res_tokens result\<rparr> enhanced_results)
               [] agent_results)"

subsection \<open>The fallback document\<close>

text \<open>\<^verbatim>\<open>_create_fallback_documentation\<close>: the files grouped by extension.\<close>

definition extension_of :: "string \<Rightarrow> string" where
  "extension_of name =
     (if str_contains ''.'' name then str_lower (last (split_on (CHR ''.'') name)) else ''other'')"

definition files_by_extension :: "file_record list \<Rightarrow> (string \<times> string list) list" where
  "files_by_extension fs =
     foldl (\<lambda>file_types f. dict_append file_types (extension_of (name_of f)) (name_of f)) [] fs"

definition extension_listing :: "string \<times> string list \<Rightarrow> string" where
  "extension_listing = (\<lambda>(file_type, file_list).
     ''### '' @
     str_upper file_type @
     '' Files ('' @
     str_of_nat (length file_list) @
     '')\<newline>'' @
     concat (map (\<lambda>fname. ''- `'' @
                               fname @
                               ''`\<newline>'') (take 10 file_list)) @
     (if length file_list > 10
      then ''- ... and '' @
           str_of_nat (length file_list - 10) @
           '' more files\<newline>''
      else []) @
     ''\<newline>'')"

definition create_fallback_documentation :: "project_data \<Rightarrow> string" where
  "create_fallback_documentation project_data =
     ''# '' @
     title_or ''Project'' project_data @
     '' Documentation\<newline>'' @
     ''\<newline>'' @
     ''    ## Project Overview\<newline>'' @
     ''    This documentation was generated for **'' @
     title_or ''your project'' project_data @
     ''**.\<newline>'' @
     ''\<newline>'' @
     ''    **Description**: '' @
     (case description project_data of None \<Rightarrow> ''No description provided'' | Some d \<Rightarrow> d) @
     ''\<newline>'' @
     ''\<newline>'' @
     ''    ## Project Structure\<newline>'' @
     ''    The project contains **'' @
     str_of_nat (length (files project_data)) @
     '' files** that were analyzed:\<newline>'' @
     ''\<newline>'' @
     ''    '' @
     concat (map extension_listing (files_by_extension (files project_data))) @
     ''## Getting Started\<newline>'' @
     ''    To work with this project:\<newline>'' @
     ''\<newline>'' @
     ''    1. Review the project structure above\<newline>'' @
     ''    2. Check for README or setup files\<newline>'' @
     ''    3. Install required dependencies\<newline>'' @
     ''    4. Follow any setup instructions provided\<newline>'' @
     ''\<newline>'' @
     ''    ## Next Steps\<newline>'' @
     ''    This is a basic analysis of your project structure. For more detailed documentation:\<newline>'' @
     ''\<newline>'' @
     ''    - Ensure all project files are uploaded\<newline>'' @
     ''    - Check that files contain actual code content\<newline>'' @
     ''    - Verify network connectivity for AI analysis\<newline>'' @
     ''    - Contact support if issues persist\<newline>'' @
     ''\<newline>'' @
     ''    ---\<newline>'' @
     ''    *Generated by Mashreq Documentation System*\<newline>'' @
     ''    ''"

subsection \<open>Assembly: validation\<close>

text \<open>
  \<^verbatim>\<open>OrchestratorAgent._assemble_final_documentation\<close>.  First the filter: the words
  and the lines that are not headings, the text without its markdown characters,
  and the phrases of a failed generation.
\<close>

definition section_order :: "string list" where
  "section_order =
     [''Code Architecture Agent'',
      ''System Architecture Agent'',
      ''API Integration Agent'',
      ''Security Implementation Agent'',
      ''Deployment Operations Agent'',
      ''Quality Assurance Agent'',
      ''User Documentation Agent'',
      ''Performance Optimization Agent'']"

definition non_heading_words :: "string \<Rightarrow> string list" where
  "non_heading_words content =
     filter (\<lambda>w. str_strip w \<noteq> [] \<and> \<not> startswith w ''#'') (str_split content)"

definition non_heading_lines :: "string \<Rightarrow> string list" where
  "non_heading_lines content =
     map str_strip (filter (\<lambda>ln. str_strip ln \<noteq> [] \<and> \<not> startswith (str_strip ln) ''#'')
                           (split_on NL content))"

definition flat_text :: "string \<Rightarrow> string" where
  "flat_text content =
     str_replace (str_replace (str_replace (str_replace (str_replace (str_replace content
       ''#'' []) ''\<newline>'' []) '' '' []) ''-'' []) ''*'' []) ''`'' []"

definition failure_phrases :: "string list" where
  "failure_phrases =
     [''no content available'', ''content not available'', ''failed to generate'',
      ''error occurred'', ''please try again'', ''analysis failed'']"

definition is_valid :: "agent_result \<Rightarrow> bool" where
  "is_valid result =
     (let content = str_strip (res_content result)
      in if content = [] then False
         else if length (non_heading_words content) < 100 then False
         else if length (non_heading_lines content) < 5 then False
         else if length (flat_text content) < 100 then False
         else if list_ex (\<lambda>p. str_contains p (str_lower content)) failure_phrases then False
         else True)"

definition validate_results :: "results \<Rightarrow> results" where
  "validate_results enhanced_results =
     foldl (\<lambda>valid_results (agent_name, result).
              if is_valid result then AList.update agent_name result valid_results
              else valid_results)
           [] enhanced_results"

subsection \<open>Assembly: the overview\<close>

text \<open>The table of contents.  \<open>stamp\<close> is the reading of the clock,
  \<^verbatim>\<open>datetime.now().strftime('%Y-%m-%d %H:%M:%S')\<close>.\<close>

definition has_key :: "string \<Rightarrow> results \<Rightarrow> bool" where
  "has_key agent_name rs = (agent_name \<in> set (map fst rs))"

definition toc_lines :: "string \<Rightarrow> results \<Rightarrow> project_data \<Rightarrow> string list" where
  "toc_lines stamp valid_results project_data =
     [''# Comprehensive Technical Documentation\<newline>'',
      ''**Project**: '' @
      title_or ''Unknown Project'' project_data,
      ''**Generated**: '' @
      stamp,
      ''**Analysis Method**: Multi-Agent Parallel Processing'',
      ''**Agents Deployed**: '' @
      str_of_nat (length valid_results),
      ''\<newline>'' @
      ''**Files Analyzed**: '' @
      str_of_nat (length (files project_data)) @
      '' files\<newline>'',
      ''## Documentation Sections\<newline>''] @
     map (\<lambda>(n, agent_name). str_of_nat n @
                            ''. '' @
                            str_replace agent_name '' Agent'' '' Analysis'')
         (enumerate 1 (filter (\<lambda>agent_name. has_key agent_name valid_results) section_order))"

definition full_toc :: "string \<Rightarrow> results \<Rightarrow> project_data \<Rightarrow> string" where
  "full_toc stamp valid_results project_data =
     str_join ''\<newline>'' (toc_lines stamp valid_results project_data)"

subsection \<open>Assembly: cleaning a candidate for its fingerprint\<close>

text \<open>
  The two \<^verbatim>\<open>re.sub\<close> calls of \<^verbatim>\<open>_try_add_tab\<close>.  The first pattern is
  \<^verbatim>\<open>```[\w-]*\s*\n\s*```\<close>.  A backtick is neither a word character, a hyphen nor
  whitespace, and a line feed is whitespace and no word character; so a match at a
  position is the three backticks, the whole run of word characters and hyphens
  after them, the whole run of whitespace after that, which must hold a line feed,
  and three backticks.  \<open>match_empty_block s\<close> is the length of the match at the
  start of \<open>s\<close>.
\<close>

definition fence :: string where
  "fence = ''```''"

definition match_empty_block :: "string \<Rightarrow> nat option" where
  "match_empty_block s =
     (if prefix fence s then
        (let r1 = drop 3 s;
             w = takeWhile (\<lambda>c. is_word_char c \<or> c = CHR ''-'') r1;
             r2 = drop (length w) r1;
             ws = takeWhile is_space r2;
             r3 = drop (length ws) r2
         in if NL \<in> set ws \<and> prefix fence r3 then Some (3 + length w + length ws + 3)
            else None)
      else None)"

text \<open>\<^verbatim>\<open>re.sub(pattern, "", content)\<close>: the matches are found left to right and do not
  overlap.  The first argument counts the characters of the current match still to
  be dropped.\<close>

fun remove_empty_blocks :: "nat \<Rightarrow> string \<Rightarrow> string" where
  "remove_empty_blocks k [] = []"
| "remove_empty_blocks (Suc k) (c # cs) = remove_empty_blocks k cs"
| "remove_empty_blocks 0 (c # cs) =
     (case match_empty_block (c # cs) of
        Some n \<Rightarrow> remove_empty_blocks (n - 1) cs
      | None \<Rightarrow> c # remove_empty_blocks 0 cs)"

text \<open>
  The second pattern is \<^verbatim>\<open>```(\w+)?\s*\n([\s\S]*?)\n\s*```\<close>.  After the three
  backticks and the whole run of word characters, \<^verbatim>\<open>\s*\<close> is greedy: the engine
  tries the line feeds of the whitespace run from the last one to the first as the
  \<^verbatim>\<open>\n\<close> of the pattern.  For each, the lazy group takes the shortest text after
  which a line feed, the whole run of whitespace after it and three backticks
  follow.  The result is the length of the match and the text of the group.
\<close>

definition closes_here :: "string \<Rightarrow> bool" where
  "closes_here s = prefix fence (dropWhile is_space s)"

fun find_close :: "string \<Rightarrow> nat option" where
  "find_close [] = None"
| "find_close (c # cs) =
     (if c = NL \<and> closes_here cs then Some 0 else map_option Suc (find_close cs))"

fun first_some :: "('a \<Rightarrow> 'b option) \<Rightarrow> 'a list \<Rightarrow> 'b option" where
  "first_some f [] = None"
| "first_some f (x # xs) = (case f x of Some y \<Rightarrow> Some y | None \<Rightarrow> first_some f xs)"

definition match_code_block :: "string \<Rightarrow> (nat \<times> string) option" where
  "match_code_block s =
     (if prefix fence s then
        (let r1 = drop 3 s;
             w = takeWhile is_word_char r1;
             r2 = drop (length w) r1;
             ws = takeWhile is_space r2
         in first_some
              (\<lambda>a. let body = drop (a + 1) r2
                   in case find_close body of
                        None \<Rightarrow> None
                      | Some e \<Rightarrow>
                          Some (3 + length w + (a + 1) + e + 1
                                  + length (takeWhile is_space (drop (e + 1) body)) + 3,
                                take e body))
              (rev (filter (\<lambda>a. ws ! a = NL) [0..<length ws])))
      else None)"

definition is_trivial_line :: "string \<Rightarrow> bool" where
  "is_trivial_line l =
     (startswith l ''import '' \<or>
      endswith l ''.js'' \<or> endswith l ''.jsx'' \<or> endswith l ''.css'' \<or>
      startswith l ''//'' \<or>
      startswith l ''#'' \<or>
      (startswith l ''from '' \<and> str_contains ''import'' l))"

definition is_trivial_codeblock :: "string \<Rightarrow> bool" where
  "is_trivial_codeblock block =
     (let lines = filter (\<lambda>l. l \<noteq> []) (map str_strip (str_splitlines block))
      in if lines = [] then True else list_all is_trivial_line lines)"

text \<open>\<^verbatim>\<open>re.sub(pattern, replace_trivial_codeblocks, content)\<close>: a trivial block is
  dropped, any other match is kept as it is, and the search goes on after the
  match.  The flag says whether the current match is kept.\<close>

fun replace_trivial_codeblocks :: "bool \<Rightarrow> nat \<Rightarrow> string \<Rightarrow> string" where
  "replace_trivial_codeblocks keep k [] = []"
| "replace_trivial_codeblocks keep (Suc k) (c # cs) =
     (if keep then c # replace_trivial_codeblocks keep k cs
      else replace_trivial_codeblocks keep k cs)"
| "replace_trivial_codeblocks keep 0 (c # cs) =
     (case match_code_block (c # cs) of
        None \<Rightarrow> c # replace_trivial_codeblocks keep 0 cs
      | Some (n, code) \<Rightarrow>
          if is_trivial_codeblock code then replace_trivial_codeblocks False (n - 1) cs
          else c # replace_trivial_codeblocks True (n - 1) cs)"

definition is_empty_bullet :: "string \<Rightarrow> bool" where
  "is_empty_bullet ln =
     (let stripped = str_strip ln
      in (startswith stripped ''-'' \<or> startswith stripped ''*'')
         \<and> length (str_strip (str_lstrip ''-* '' stripped)) = 0)"

definition cleaned_content :: "string \<Rightarrow> string" where
  "cleaned_content content =
     (let content_no_empty_code = remove_empty_blocks 0 content;
          content_no_empty_code = replace_trivial_codeblocks False 0 content_no_empty_code;
          lines_cleaned = filter (\<lambda>ln. \<not> is_empty_bullet ln) (str_splitlines content_no_empty_code)
      in str_join ''\<newline>'' lines_cleaned)"

definition fingerprint :: "string \<Rightarrow> string" where
  "fingerprint content =
     (let normalized = str_lower (cleaned_content content);
          normalized = str_join '' '' (str_split normalized)
      in md5_hexdigest normalized)"

subsection \<open>Assembly: accepting a candidate\<close>

text \<open>
  The nested function \<^verbatim>\<open>_try_add_tab\<close> with the variables it shares with
  \<^verbatim>\<open>_assemble_final_documentation\<close> as a state.  A tab is the dict of a section; the
  key \<^verbatim>\<open>section_number\<close> is present in the tabs that \<^verbatim>\<open>_try_add_tab\<close> builds and
  in no other.

  The similarity \<^verbatim>\<open>common / max(len(ew), len(cw)) > 0.65\<close> is a comparison of
  floating-point numbers in the code.  The quotient is the double nearest to the
  fraction and \<^verbatim>\<open>0.65\<close> the double nearest to 13/20; as long as the sets have fewer
  than \<open>2 ^ 49\<close> words, two different fractions of that form are further apart than
  neighbouring doubles, and the comparison is that of the fractions, which is how
  it is written here.
\<close>

record tab =
  tab_title :: string
  tab_content :: string
  word_count :: nat
  tab_agent :: string
  section_number :: "nat option"

record assembly =
  tabs_built :: "tab list"
  full_content_parts :: "string list"
  created_tabs :: "tab list"
  seen_hashes :: "string set"
  seen_titles :: "string set"
  section_count :: nat

definition title_tokens :: "string list" where
  "title_tokens =
     [''analysis'', ''documentation'', ''implementation'', ''operations'', ''assurance'',
      ''optimization'']"

definition normalize_title :: "string \<Rightarrow> string" where
  "normalize_title t =
     (let base = foldl (\<lambda>base token. str_replace base token []) (str_lower t) title_tokens
      in str_strip (str_join '' '' (str_split base)))"

definition word_set :: "string \<Rightarrow> string set" where
  "word_set content = set (str_split (str_lower content))"

definition too_similar :: "string \<Rightarrow> string \<Rightarrow> bool" where
  "too_similar existing_content content =
     (let ew = word_set existing_content;
          cw = word_set content
      in ew \<noteq> {} \<and> cw \<noteq> {} \<and> 20 * card (ew \<inter> cw) > 13 * max (card ew) (card cw))"

definition try_add_tab :: "assembly \<Rightarrow> string \<Rightarrow> string \<Rightarrow> string \<Rightarrow> bool \<times> assembly" where
  "try_add_tab st t content agent_name =
     (let base = normalize_title t
      in if base \<in> seen_titles st then (False, st)
         else let h = fingerprint content
              in if h \<in> seen_hashes st then (False, st)
                 else if list_ex (\<lambda>existing. too_similar (tab_content existing) content)
                                 (created_tabs st)
                 then (False, st)
                 else let new_tab =
                            \<lparr>tab_title = t,
                             tab_content = content,
                             word_count = length (non_heading_words content),
                             tab_agent = agent_name,
                             section_number = Some (section_count st)\<rparr>
                      in (True,
                          \<lparr>tabs_built = tabs_built st @ [new_tab],
                           full_content_parts = full_content_parts st @
                             [''# '' @
                              str_of_nat (section_count st) @
                              ''. '' @
                              t @
                              ''\<newline>'',
                              content,
                              ''\<newline>'' @
                              ''\<newline>'' @
                              ''---\<newline>''],
                           created_tabs = created_tabs st @ [new_tab],
                           seen_hashes = insert h (seen_hashes st),
                           seen_titles = insert base (seen_titles st),
                           section_count = section_count st + 1\<rparr>))"

subsection \<open>Assembly: the document\<close>

record documentation =
  content :: string
  tabs :: "tab list"

definition fallback_tab :: "string \<Rightarrow> string \<Rightarrow> tab" where
  "fallback_tab t fallback =
     \<lparr>tab_title = t,
      tab_content = fallback,
      word_count = length (str_split fallback),
      tab_agent = ''Fallback'',
      section_number = None\<rparr>"

definition lookup_content :: "results \<Rightarrow> string \<Rightarrow> string" where
  "lookup_content rs agent_name =
     (case map_of rs agent_name of None \<Rightarrow> [] | Some result \<Rightarrow> res_content result)"

definition add_ordered :: "results \<Rightarrow> assembly \<Rightarrow> string \<Rightarrow> assembly" where
  "add_ordered valid_results st agent_name =
     (if has_key agent_name valid_results
      then snd (try_add_tab st (str_replace agent_name '' Agent'' '' Analysis'')
                  (str_strip (lookup_content valid_results agent_name)) agent_name)
      else st)"

definition add_other :: "assembly \<Rightarrow> string \<times> agent_result \<Rightarrow> assembly" where
  "add_other st = (\<lambda>(agent_name, result).
     if agent_name \<notin> set section_order
     then let content = str_strip (res_content result)
          in if content = [] then st
             else snd (try_add_tab st (str_replace agent_name '' Agent'' []) content agent_name)
     else st)"

definition initial_assembly :: "string \<Rightarrow> assembly" where
  "initial_assembly toc =
     \<lparr>tabs_built = [],
      full_content_parts = [toc @ ''\<newline>'' @ ''\<newline>'' @ ''---\<newline>''],
      created_tabs = [],
      seen_hashes = {},
      seen_titles = {},
      section_count = 1\<rparr>"

definition build_tabs :: "string \<Rightarrow> results \<Rightarrow> assembly" where
  "build_tabs toc valid_results =
     foldl add_other
       (foldl (add_ordered valid_results) (initial_assembly toc) section_order)
       valid_results"

definition overview_tab :: "string \<Rightarrow> tab" where
  "overview_tab toc =
     \<lparr>tab_title = ''Documentation Overview'',
      tab_content = toc,
      word_count = length (str_split toc),
      tab_agent = ''Orchestrator'',
      section_number = None\<rparr>"

definition assemble_final_documentation :: "string \<Rightarrow> results \<Rightarrow> project_data \<Rightarrow> documentation" where
  "assemble_final_documentation stamp enhanced_results project_data =
     (let valid_results = validate_results enhanced_results
      in if valid_results = []
         then let fallback = create_fallback_documentation project_data
              in \<lparr>content = fallback, tabs = [fallback_tab ''Project Overview'' fallback]\<rparr>
         else let toc = full_toc stamp valid_results project_data;
                  st = build_tabs toc valid_results;
                  fallback = create_fallback_documentation project_data;
                  tabs1 = (if tabs_built st = [] then [fallback_tab ''Project Analysis'' fallback]
                           else tabs_built st);
                  parts = (if tabs_built st = [] then [fallback] else full_content_parts st);
                  tabs2 = (if length tabs1 > 1 then overview_tab toc # tabs1 else tabs1)
              in \<lparr>content = str_join ''\<newline>'' parts, tabs = tabs2\<rparr>)"

subsection \<open>The roster\<close>

text \<open>The agents of \<^verbatim>\<open>_initialize_agents\<close>, each with its role.\<close>

definition agent_configs :: "(string \<times> string) list" where
  "agent_configs =
     [(''Code Architecture Agent'', ''Senior Code Architect and Logic Analyzer''),
      (''System Architecture Agent'', ''Principal System Architect and Design Pattern Expert''),
      (''API Integration Agent'', ''Senior API Architect and Integration Specialist''),
      (''Security Implementation Agent'', ''Principal Security Engineer and Authentication Specialist''),
      (''Deployment Operations Agent'', ''Senior DevOps Engineer and Infrastructure Specialist''),
      (''Quality Assurance Agent'', ''Senior Quality Engineer and Test Automation Specialist''),
      (''User Documentation Agent'', ''Senior Technical Writer and User Experience Specialist''),
      (''Performance Optimization Agent'', ''Senior Performance Engineer and System Maintenance Specialist'')]"

subsection \<open>Simulation\<close>

text \<open>
  \<^verbatim>\<open>_simulate_comprehensive_generation\<close>.  The clock is read three times in a run:
  for the stamp of the overview, for \<^verbatim>\<open>generated_at\<close> and for the elapsed time; the
  readings are the fields of \<open>clock\<close>.  \<^verbatim>\<open>time.sleep\<close> only takes time.
\<close>

record clock =
  strftime_now :: string
  isoformat_now :: string
  elapsed_ms :: int

record generation_result = documentation +
  model :: string
  tokens_used :: nat
  processing_time_ms :: int
  generated_at :: string
  method_tag :: string
  agents_deployed :: nat
  sections_generated :: nat

definition agent_sections :: "(string \<times> string) list" where
  "agent_sections =
     [(''Code Architecture Analysis'', ''Comprehensive code structure and logic analysis''),
      (''System Architecture Analysis'', ''System design patterns and component relationships''),
      (''API Integration Documentation'', ''Complete endpoint specifications and integration guides''),
      (''Security Implementation Analysis'', ''Authentication flows and security implementations''),
      (''Deployment Operations Guide'', ''Installation procedures and infrastructure requirements''),
      (''Quality Assurance Strategy'', ''Testing strategies and quality assurance processes''),
      (''User Documentation Guide'', ''User workflows and onboarding procedures''),
      (''Performance Optimization Analysis'', ''Optimization strategies and operational procedures'')]"

definition simulated_content :: "project_data \<Rightarrow> string \<Rightarrow> string \<Rightarrow> string" where
  "simulated_content project_data section_title descr =
     (let file_count = length (files project_data)
      in ''# '' @
         section_title @
         ''\<newline>'' @
         ''\<newline>'' @
         ''## Overview\<newline>'' @
         descr @
         ''\<newline>'' @
         ''\<newline>'' @
         ''## Detailed Analysis\<newline>'' @
         ''*[This section would contain comprehensive '' @
         str_lower section_title @
         '' for '' @
         title_or ''Unknown Project'' project_data @
         '']*\<newline>'' @
         ''\<newline>'' @
         ''### Key Components Identified\<newline>'' @
         ''- Component analysis based on '' @
         str_of_nat file_count @
         '' project files\<newline>'' @
         ''- Integration patterns and architectural decisions\<newline>'' @
         ''- Implementation details and best practices\<newline>'' @
         ''- Performance implications and optimization opportunities\<newline>'' @
         ''\<newline>'' @
         ''### Technical Implementation\<newline>'' @
         ''The '' @
         str_lower section_title @
         '' reveals several important aspects:\<newline>'' @
         ''\<newline>'' @
         ''1. **Primary Architecture**: Modern, scalable design patterns\<newline>'' @
         ''2. **Technology Integration**: Well-structured component interactions  \<newline>'' @
         ''3. **Code Organization**: Clear separation of concerns\<newline>'' @
         ''4. **Quality Standards**: Enterprise-level implementation practices\<newline>'' @
         ''\<newline>'' @
         ''### Recommendations\<newline>'' @
         ''- Continue following established architectural patterns\<newline>'' @
         ''- Implement comprehensive monitoring and logging\<newline>'' @
         ''- Regular security audits and performance optimization\<newline>'' @
         ''- Maintain documentation as system evolves\<newline>'' @
         ''\<newline>'' @
         ''### Cross-Agent Integration\<newline>'' @
         ''This analysis integrates with insights from other specialized agents to provide a holistic view of the system architecture and implementation.\<newline>'' @
         ''\<newline>'' @
         ''*Note: This is simulated content. The actual multi-agent system would provide detailed, code-specific analysis based on comprehensive examination of all project files.*\<newline>'')"

definition simulated_tab :: "project_data \<Rightarrow> string \<times> string \<Rightarrow> tab" where
  "simulated_tab project_data = (\<lambda>(section_title, descr).
     let simulated = simulated_content project_data section_title descr
     in \<lparr>tab_title = section_title,
         tab_content = simulated,
         word_count = length (str_split simulated),
         tab_agent = section_title @
                     '' Agent'',
         section_number = None\<rparr>)"

definition simulated_parts :: "project_data \<Rightarrow> nat \<times> string \<times> string \<Rightarrow> string list" where
  "simulated_parts project_data = (\<lambda>(i, section_title, descr).
     [str_of_nat i @
      ''. '' @
      section_title,
      simulated_content project_data section_title descr,
      ''\<newline>'' @
      ''---\<newline>''])"

definition simulation_header :: "string \<Rightarrow> project_data \<Rightarrow> string list" where
  "simulation_header stamp project_data =
     (let file_count = length (files project_data)
      in [''# Comprehensive Technical Documentation\<newline>'',
          ''**Project**: '' @
          title_or ''Unknown Project'' project_data @
          ''\<newline>'',
          ''**Generated**: '' @
          stamp @
          ''\<newline>'',
          ''**Analysis Method**: Multi-Agent Simulation\<newline>'',
          ''**Files Analyzed**: '' @
          str_of_nat file_count @
          '' files\<newline>'' @
          ''\<newline>'',
          ''## Multi-Agent Analysis Overview\<newline>'',
          ''This documentation was generated using 8 specialized AI agents working in parallel:\<newline>'' @
          ''\<newline>''])"

definition simulate_comprehensive_generation :: "clock \<Rightarrow> project_data \<Rightarrow> generation_result" where
  "simulate_comprehensive_generation clk project_data =
     (let full_content_parts =
            simulation_header (strftime_now clk) project_data @
            concat (map (simulated_parts project_data) (enumerate 1 agent_sections));
          overview_content = str_join ''\<newline>'' (take 8 full_content_parts);
          tabs =
            \<lparr>tab_title = ''Documentation Overview'',
             tab_content = overview_content,
             word_count = length (str_split overview_content),
             tab_agent = ''Orchestrator'',
             section_number = None\<rparr> # map (simulated_tab project_data) agent_sections;
          full_content = str_join ''\<newline>'' full_content_parts
      in \<lparr>content = full_content,
          tabs = tabs,
          model = ''multi-agent-simulation'',
          tokens_used = length full_content div 4,
          processing_time_ms = elapsed_ms clk,
          generated_at = isoformat_now clk,
          method_tag = ''multi-agent-simulation'',
          agents_deployed = length agent_sections,
          sections_generated = length tabs\<rparr>)"

subsection \<open>The generation\<close>

text \<open>
  \<^verbatim>\<open>OrchestratorAgent.generate_comprehensive_documentation\<close>.  \<open>client\<close> says whether a
  backend client is configured (\<^verbatim>\<open>self.client\<close>); \<open>futures\<close> are the agents' futures
  in completion order, one for each agent of the roster, so \<^verbatim>\<open>len(self.agents)\<close> is
  their number.  The token count is that of this run (the orchestrator of a run is
  new, \<^verbatim>\<open>MultiAgentService.generate_documentation\<close> builds one for each call).

  Inside the \<^verbatim>\<open>try\<close> of the method the operations that raise on these data are
  the reads of the futures, and \<^verbatim>\<open>_run_agents_parallel\<close> catches each of them; the
  handler of the method itself, which returns the simulation, is never entered.
\<close>

definition all_empty :: "results \<Rightarrow> bool" where
  "all_empty agent_results =
     list_all (\<lambda>(agent_name, result). str_strip (res_content result) = []) agent_results"

definition generate_comprehensive_documentation ::
    "clock \<Rightarrow> bool \<Rightarrow> (string \<times> future_result) list \<Rightarrow> project_data \<Rightarrow> generation_result" where
  "generate_comprehensive_documentation clk client futures project_data =
     (if \<not> client then simulate_comprehensive_generation clk project_data
      else let (agent_results, total_tokens) = run_agents_parallel futures
           in if agent_results = [] \<or> all_empty agent_results
              then simulate_comprehensive_generation clk project_data
              else let enhanced_results = enhance_cross_references agent_results project_data;
                       final_documentation =
                         assemble_final_documentation (strftime_now clk) enhanced_results project_data;
                       fallback_content = create_fallback_documentation project_data;
                       final_documentation =
                         (if tabs final_documentation = []
                          then \<lparr>content = fallback_content,
                                tabs = [fallback_tab ''Project Documentation'' fallback_content]\<rparr>
                          else final_documentation)
                   in \<lparr>content = content final_documentation,
                       tabs = tabs final_documentation,
                       model = ''gpt-4-turbo-multi-agent'',
                       tokens_used = total_tokens,
                       processing_time_ms = elapsed_ms clk,
                       generated_at = isoformat_now clk,
                       method_tag = ''multi-agent-parallel'',
                       agents_deployed = length futures,
                       sections_generated = length (tabs final_documentation)\<rparr>)"

section \<open>Properties of the string operations\<close>

lemma str_strip_Nil [simp]: "str_strip [] = []"
  by (simp add: str_strip_def)

lemma NL_is_space [simp]: "is_space NL"
  by (simp add: is_space_def NL_def)

lemma space_is_space [simp]: "is_space (CHR '' '')"
  by (simp add: is_space_def)

lemma str_join_Cons: "str_join sep (x # xs) = x @ (if xs = [] then [] else sep @ str_join sep xs)"
  by (cases xs) simp_all

lemma str_join_eq_Nil: "str_join sep (x # xs) = [] \<Longrightarrow> x = []"
  by (simp add: str_join_Cons)

text \<open>Words of a text that ends in \<open>n\<close> copies of a blank and a letter.\<close>

lemma split_from_filler:
  "\<not> is_space c \<Longrightarrow>
   length (split_from cur (concat (replicate n [CHR '' '', c]))) = (if cur = [] then 0 else 1) + n"
  by (induction n arbitrary: cur) simp_all

lemma count_from_no_newline:
  "NL \<notin> set s \<Longrightarrow> prefix [NL] sub \<Longrightarrow> count_from k sub s = 0"
proof (induction s arbitrary: k)
  case Nil
  then show ?case by simp
next
  case (Cons c cs)
  then have "\<not> prefix sub (c # cs)"
    by (auto simp: prefix_def)
  with Cons show ?case
    by (cases k) simp_all
qed

lemma str_contains_prefix: "prefix sub s \<Longrightarrow> str_contains sub s"
  by (cases s) auto

lemma str_contains_append_left: "str_contains sub s \<Longrightarrow> str_contains sub (s @ r)"
proof (induction s)
  case Nil
  then show ?case by (simp add: str_contains_prefix)
next
  case (Cons c cs)
  then show ?case
    using prefix_prefix [of sub "c # cs" r] by auto
qed

lemma str_contains_append_right: "str_contains sub s \<Longrightarrow> str_contains sub (l @ s)"
  by (induction l) simp_all

lemma str_contains_self: "str_contains sub (sub @ r)"
  by (rule str_contains_prefix) simp

lemma str_contains_middle: "str_contains sub (l @ sub @ r)"
  by (simp add: str_contains_append_right str_contains_self)

section \<open>The quality gate at its boundary\<close>

lemma passes_quality_Nil: "passes_quality [] = False"
  by (simp add: passes_quality_def)

lemma passes_quality_few_words:
  "length (str_split (str_strip text)) < 700 \<Longrightarrow> passes_quality text = False"
  by (simp add: passes_quality_def Let_def)

lemma str_strip_id:
  assumes "s \<noteq> []" "\<not> is_space (hd s)" "\<not> is_space (last s)"
  shows "str_strip s = s"
proof -
  from assms have a: "dropWhile is_space s = s"
    by (cases s) simp_all
  from assms have "rev s \<noteq> []" "\<not> is_space (hd (rev s))"
    by (simp_all add: hd_rev)
  then have "dropWhile is_space (rev s) = rev s"
    by (cases "rev s") simp_all
  with a show ?thesis
    by (simp add: str_strip_def)
qed

text \<open>The drafts of the boundary: a head and \<open>n\<close> more words \<open>w\<close>.\<close>

definition filler :: "nat \<Rightarrow> string" where
  "filler n = concat (replicate n '' w'')"

lemma words_filler: "length (split_from cur (filler n)) = (if cur = [] then 0 else 1) + n"
  unfolding filler_def by (rule split_from_filler) (simp add: is_space_def)

lemma set_filler: "set (filler n) \<subseteq> {CHR '' '', CHR ''w''}"
  by (auto simp: filler_def)

lemma count_from_filler: "prefix [NL] sub \<Longrightarrow> count_from k sub (filler n) = 0"
  using set_filler [of n] by (intro count_from_no_newline) (auto simp: NL_def)

lemma last_filler: "last (xs @ filler (Suc n)) = CHR ''w''"
proof (induction n arbitrary: xs)
  case 0
  show ?case by (simp add: filler_def)
next
  case (Suc n)
  have "filler (Suc (Suc n)) = '' w'' @ filler (Suc n)"
    by (simp add: filler_def)
  then show ?case
    using Suc [of "xs @ '' w''"] by simp
qed

lemma split_on_from_no_sep: "sep \<notin> set s \<Longrightarrow> split_on_from sep cur s = [cur @ s]"
  by (induction s arbitrary: cur) auto

lemma split_on_from_filler: "split_on_from NL cur (filler n) = [cur @ filler n]"
  using set_filler [of n] by (intro split_on_from_no_sep) (auto simp: NL_def)

text \<open>A draft of 700 words with three headings, the first of them on the first line,
  and one list item; and one of 699 words whose headings are all counted.\<close>

definition draft_700 :: string where
  "draft_700 = ''# Title\<newline># Setup\<newline># Usage\<newline>- item'' @ filler 692"

definition draft_699 :: string where
  "draft_699 = ''Title\<newline># Setup\<newline># Usage\<newline># Notes\<newline>- item'' @ filler 690"

lemma draft_700_strip: "str_strip draft_700 = draft_700"
proof (rule str_strip_id)
  have "filler 692 = filler (Suc 691)"
    by simp
  then have "last draft_700 = CHR ''w''"
    unfolding draft_700_def by (simp only: last_filler)
  then show "\<not> is_space (last draft_700)"
    by (simp add: is_space_def)
qed (simp_all add: draft_700_def is_space_def)

lemma draft_700_words: "length (str_split draft_700) = 700"
  by (simp add: draft_700_def str_split_def is_space_def words_filler)

lemma draft_700_headings: "heading_count draft_700 = 2"
  by (simp add: draft_700_def heading_count_def str_count_def count_from_filler NL_def)

lemma draft_700_lists: "has_lists draft_700"
proof -
  have "str_contains ''- '' ''# Title\<newline># Setup\<newline># Usage\<newline>- item''"
    by simp
  then show ?thesis
    unfolding has_lists_def draft_700_def by (blast intro: str_contains_append_left)
qed

lemma draft_699_strip: "str_strip draft_699 = draft_699"
proof (rule str_strip_id)
  have "filler 690 = filler (Suc 689)"
    by simp
  then have "last draft_699 = CHR ''w''"
    unfolding draft_699_def by (simp only: last_filler)
  then show "\<not> is_space (last draft_699)"
    by (simp add: is_space_def)
qed (simp_all add: draft_699_def is_space_def)

lemma draft_699_words: "length (str_split draft_699) = 699"
  by (simp add: draft_699_def str_split_def is_space_def words_filler)

lemma draft_699_headings: "heading_count draft_699 = 3"
  by (simp add: draft_699_def heading_count_def str_count_def count_from_filler NL_def)

text \<open>
  Claim C5.  A draft of exactly 699 words with three headings and a list item does
  not pass the quality gate; a draft of 700 words with three headings and a list
  item passes it.  The first half holds: below 700 words no draft passes
  (\<open>passes_quality_few_words\<close>), and \<open>draft_699\<close> is such a draft.  The second half
  fails on the code: \<open>draft_700\<close> has 700 words, the three headings \<open># Title\<close>,
  \<open># Setup\<close> and \<open># Usage\<close> and the list item \<open>- item\<close>, and the gate rejects it.
  The gate counts the occurrences of a line feed followed by \<open>#\<close>, so the heading on
  the first line of a draft is not counted; the comment of the code reads
  \<open>>=700 words, >=3 headings, and at least one list\<close>.
\<close>

theorem quality_gate_boundary_700_rejected:
  "length (str_split (str_strip draft_700)) = 700
   \<and> length (filter (\<lambda>ln. startswith ln ''# '') (split_on NL draft_700)) = 3
   \<and> has_lists draft_700
   \<and> heading_count draft_700 = 2
   \<and> passes_quality draft_700 = False
   \<and> length (str_split (str_strip draft_699)) = 699
   \<and> heading_count draft_699 = 3
   \<and> passes_quality draft_699 = False"
proof -
  have "length (filter (\<lambda>ln. startswith ln ''# '') (split_on NL draft_700)) = 3"
    by (simp add: draft_700_def split_on_def split_on_from_filler [unfolded NL_def] startswith_def NL_def)
  moreover have "passes_quality draft_700 = False"
    by (simp add: passes_quality_def Let_def draft_700_headings)
  moreover have "passes_quality draft_699 = False"
    by (rule passes_quality_few_words) (simp add: draft_699_strip draft_699_words)
  ultimately show ?thesis
    by (simp add: draft_700_strip draft_700_words draft_700_lists draft_700_headings
        draft_699_strip draft_699_words draft_699_headings)
qed

section \<open>The retry cap\<close>

lemma passes_quality_blank: "str_strip text = [] \<Longrightarrow> passes_quality text = False"
  by (simp add: passes_quality_def)

text \<open>
  Claim C6.  A backend that answers every call with the empty string (whatever the
  token usage it reports) is called exactly three times by \<open>analyze_project\<close>, and
  the content the agent returns is the fixed text \<open># Draft Incomplete\<close>, not the
  empty string.
\<close>

theorem retry_cap_on_empty_replies:
  "run_calls (analyze_project ag (Some (\<lambda>k. Completion (Some []) (usage k))) project_data) = 3
   \<and> run_content (analyze_project ag (Some (\<lambda>k. Completion (Some []) (usage k))) project_data)
       = ''# Draft Incomplete\<newline>\<newline>No content.''
   \<and> run_content (analyze_project ag (Some (\<lambda>k. Completion (Some []) (usage k))) project_data) \<noteq> []"
  by (simp add: analyze_project_def numeral_3_eq_3 passes_quality_Nil)

theorem retry_cap_on_empty_replies_witness:
  "run_calls (analyze_project \<lparr>self_name = ''Code Architecture Agent'',
        self_role = ''Senior Code Architect and Logic Analyzer''\<rparr>
      (Some (\<lambda>k. Completion (Some []) None))
      \<lparr>title = Some ''Demo'', description = None, files = []\<rparr>) = 3"
  using retry_cap_on_empty_replies
    [of "\<lparr>self_name = ''Code Architecture Agent'',
           self_role = ''Senior Code Architect and Logic Analyzer''\<rparr>"
        "\<lambda>k. None" "\<lparr>title = Some ''Demo'', description = None, files = []\<rparr>"]
  by simp

section \<open>Generation without a backend\<close>




section \<open>The steps of the assembly\<close>

text \<open>The state after \<open>_try_add_tab\<close> has accepted a candidate, and the two outcomes
  of a call.\<close>

definition new_tab :: "assembly \<Rightarrow> string \<Rightarrow> string \<Rightarrow> string \<Rightarrow> tab" where
  "new_tab st t c a =
     \<lparr>tab_title = t, tab_content = c, word_count = length (non_heading_words c),
      tab_agent = a, section_number = Some (section_count st)\<rparr>"

definition accepted :: "assembly \<Rightarrow> string \<Rightarrow> string \<Rightarrow> string \<Rightarrow> assembly" where
  "accepted st t c a =
     \<lparr>tabs_built = tabs_built st @ [new_tab st t c a],
      full_content_parts = full_content_parts st @
        [''# '' @ str_of_nat (section_count st) @ ''. '' @ t @ ''\<newline>'', c,
         ''\<newline>\<newline>---\<newline>''],
      created_tabs = created_tabs st @ [new_tab st t c a],
      seen_hashes = insert (fingerprint c) (seen_hashes st),
      seen_titles = insert (normalize_title t) (seen_titles st),
      section_count = section_count st + 1\<rparr>"

definition rejects :: "assembly \<Rightarrow> string \<Rightarrow> string \<Rightarrow> bool" where
  "rejects st t c =
     (normalize_title t \<in> seen_titles st \<or> fingerprint c \<in> seen_hashes st
      \<or> list_ex (\<lambda>existing. too_similar (tab_content existing) c) (created_tabs st))"

lemma try_add_tab_eq:
  "try_add_tab st t c a = (if rejects st t c then (False, st) else (True, accepted st t c a))"
  by (simp add: try_add_tab_def rejects_def accepted_def new_tab_def Let_def)

lemma foldl_invariant:
  assumes "P s" and "\<And>st x. P st \<Longrightarrow> x \<in> set xs \<Longrightarrow> P (f st x)"
  shows "P (foldl f s xs)"
  using assms by (induction xs rule: rev_induct) simp_all

text \<open>Every candidate of the assembly is the stripped content of an entry of the
  valid results; a property of the states that the start has and that every call
  of \<open>_try_add_tab\<close> on such a candidate keeps holds at the end.\<close>

lemma build_tabs_invariant:
  assumes init: "P (initial_assembly toc)"
    and step: "\<And>st t a r. P st \<Longrightarrow> (a, r) \<in> set v
                 \<Longrightarrow> P (snd (try_add_tab st t (str_strip (res_content r)) a))"
  shows "P (build_tabs toc v)"
  unfolding build_tabs_def
proof (rule foldl_invariant [where P = P])
  show "P (foldl (add_ordered v) (initial_assembly toc) section_order)"
  proof (rule foldl_invariant [where P = P])
    show "P (initial_assembly toc)"
      by (rule init)
  next
    fix st a
    assume st: "P st"
    show "P (add_ordered v st a)"
    proof (cases "has_key a v")
      case True
      then obtain r where r: "map_of v a = Some r"
        by (auto simp: has_key_def weak_map_of_SomeI image_iff dest!: weak_map_of_SomeI)
      then have "(a, r) \<in> set v"
        by (rule map_of_SomeD)
      from step [OF st this] r True show ?thesis
        by (simp add: add_ordered_def lookup_content_def)
    next
      case False
      with st show ?thesis
        by (simp add: add_ordered_def)
    qed
  qed
next
  fix st x
  assume st: "P st" and x: "x \<in> set v"
  obtain a r where ar: "x = (a, r)"
    by (cases x)
  with step [OF st, of a r] x st show "P (add_other st x)"
    by (simp add: add_other_def Let_def)
qed

text \<open>What the validation keeps: entries of its argument that pass \<open>is_valid\<close>.\<close>

lemma set_update_subset: "set (AList.update k v al) \<subseteq> insert (k, v) (set al)"
  by (induction al) auto

lemma validate_results_sound:
  "(a, r) \<in> set (validate_results e) \<Longrightarrow> (a, r) \<in> set e \<and> is_valid r"
proof -
  have "\<forall>p \<in> set (validate_results e). p \<in> set e \<and> is_valid (snd p)"
    unfolding validate_results_def
  proof (rule foldl_invariant [where P = "\<lambda>st. \<forall>p \<in> set st. p \<in> set e \<and> is_valid (snd p)"])
    fix st :: results and x
    assume st: "\<forall>p \<in> set st. p \<in> set e \<and> is_valid (snd p)" and x: "x \<in> set e"
    obtain k w where kw: "x = (k, w)"
      by (cases x)
    show "\<forall>p \<in> set (case x of (agent_name, result) \<Rightarrow>
              if is_valid result then AList.update agent_name result st else st).
            p \<in> set e \<and> is_valid (snd p)"
      using st x set_update_subset [of k w st] by (auto simp: kw)
  qed simp
  then show "(a, r) \<in> set (validate_results e) \<Longrightarrow> (a, r) \<in> set e \<and> is_valid r"
    by auto
qed

section \<open>The result is never empty\<close>

lemma str_join_nonempty: "x \<noteq> [] \<Longrightarrow> str_join sep (x # xs) \<noteq> []"
  by (simp add: str_join_Cons)

lemma create_fallback_documentation_nonempty: "create_fallback_documentation project_data \<noteq> []"
  by (simp add: create_fallback_documentation_def)

lemma simulate_nonempty:
  "content (simulate_comprehensive_generation clk project_data) \<noteq> []
   \<and> tabs (simulate_comprehensive_generation clk project_data) \<noteq> []"
  by (simp add: simulate_comprehensive_generation_def Let_def simulation_header_def
      str_join_nonempty)

lemma parts_grow:
  "\<exists>rest. full_content_parts (build_tabs toc v) = (toc @ ''\<newline>\<newline>---\<newline>'') # rest"
proof (rule build_tabs_invariant
    [where P = "\<lambda>st. \<exists>rest. full_content_parts st = (toc @ ''\<newline>\<newline>---\<newline>'') # rest"])
  show "\<exists>rest. full_content_parts (initial_assembly toc) = (toc @ ''\<newline>\<newline>---\<newline>'') # rest"
    by (simp add: initial_assembly_def)
next
  fix st :: assembly and t a r
  assume "\<exists>rest. full_content_parts st = (toc @ ''\<newline>\<newline>---\<newline>'') # rest"
  then show "\<exists>rest. full_content_parts (snd (try_add_tab st t (str_strip (res_content r)) a))
               = (toc @ ''\<newline>\<newline>---\<newline>'') # rest"
    by (auto simp: try_add_tab_eq accepted_def)
qed

lemma assemble_nonempty:
  "content (assemble_final_documentation stamp e project_data) \<noteq> []
   \<and> tabs (assemble_final_documentation stamp e project_data) \<noteq> []"
proof (cases "validate_results e = []")
  case True
  then show ?thesis
    by (simp add: assemble_final_documentation_def Let_def create_fallback_documentation_nonempty)
next
  case False
  obtain rest where
    "full_content_parts (build_tabs (full_toc stamp (validate_results e) project_data)
        (validate_results e))
      = (full_toc stamp (validate_results e) project_data @ ''\<newline>\<newline>---\<newline>'') # rest"
    using parts_grow by blast
  with False show ?thesis
    by (simp add: assemble_final_documentation_def Let_def str_join_nonempty
        create_fallback_documentation_nonempty)
qed

text \<open>
  Claim C1.  For every project, every clock reading and every outcome of the agents'
  futures (each either returns a content, possibly empty, or raises), with or
  without a backend client, the generation returns a result with at least one tab
  and a non-empty content.  The model is a total function whose only raising
  operations, the reads of the futures, are the \<open>Raised\<close> outcomes handled in
  \<open>collect_future\<close>: no exception reaches the caller.
\<close>

theorem generation_never_empty:
  "length (tabs (generate_comprehensive_documentation clk client futures project_data)) \<ge> 1
   \<and> content (generate_comprehensive_documentation clk client futures project_data) \<noteq> []"
proof -
  have "tabs (generate_comprehensive_documentation clk client futures project_data) \<noteq> []
        \<and> content (generate_comprehensive_documentation clk client futures project_data) \<noteq> []"
    using simulate_nonempty [of clk project_data]
      assemble_nonempty [of "strftime_now clk" _ project_data]
    by (simp add: generate_comprehensive_documentation_def Let_def split: prod.split)
  then show ?thesis
    by (cases "tabs (generate_comprehensive_documentation clk client futures project_data)") simp_all
qed

theorem generation_never_empty_witness:
  "length (tabs (generate_comprehensive_documentation
      \<lparr>strftime_now = ''2024-05-01 12:00:00'', isoformat_now = ''2024-05-01T12:00:00'',
        elapsed_ms = 3000\<rparr> True
      [(''Code Architecture Agent'', Raised ''timeout''),
       (''System Architecture Agent'', Returned [] 0)]
      \<lparr>title = Some ''Demo'', description = None, files = []\<rparr>)) \<ge> 1"
  by (rule generation_never_empty [THEN conjunct1])

section \<open>Section numbers\<close>

text \<open>The section numbers that the tabs of a list carry, in the order of the list;
  a tab without the key carries none.\<close>

definition numbers :: "tab list \<Rightarrow> nat list" where
  "numbers ts = List.map_filter section_number ts"

lemma numbers_Nil [simp]: "numbers [] = []"
  by (simp add: numbers_def map_filter_simps)

lemma numbers_Cons:
  "numbers (t # ts) = (case section_number t of None \<Rightarrow> numbers ts | Some n \<Rightarrow> n # numbers ts)"
  by (simp add: numbers_def map_filter_simps split: option.split)

lemma numbers_of_numbered:
  "map section_number ts = map Some ns \<Longrightarrow> numbers ts = ns"
  by (induction ts arbitrary: ns) (auto simp: numbers_Cons)

lemma numbers_of_unnumbered:
  "\<forall>t \<in> set ts. section_number t = None \<Longrightarrow> numbers ts = []"
  by (induction ts) (auto simp: numbers_Cons)

lemma numbers_fallback_tab [simp]: "numbers [fallback_tab t fallback] = []"
  by (simp add: numbers_Cons fallback_tab_def)

text \<open>The tabs that \<open>_try_add_tab\<close> has built carry the numbers from 1 on.\<close>

definition numbered :: "assembly \<Rightarrow> bool" where
  "numbered st =
     (section_count st = Suc (length (tabs_built st))
      \<and> map section_number (tabs_built st)
          = map (\<lambda>i. Some (Suc i)) [0..<length (tabs_built st)])"

lemma numbered_step: "numbered st \<Longrightarrow> numbered (snd (try_add_tab st t c a))"
  by (simp add: try_add_tab_eq numbered_def accepted_def new_tab_def)

lemma numbered_build_tabs: "numbered (build_tabs toc v)"
proof (rule build_tabs_invariant [where P = numbered])
  show "numbered (initial_assembly toc)"
    by (simp add: numbered_def initial_assembly_def)
qed (rule numbered_step)

lemma assemble_tabs:
  "tabs (assemble_final_documentation stamp e project_data) =
     (let v = validate_results e;
          toc = full_toc stamp v project_data;
          built = tabs_built (build_tabs toc v)
      in if v = [] then
           [fallback_tab ''Project Overview'' (create_fallback_documentation project_data)]
         else if built = [] then
           [fallback_tab ''Project Analysis'' (create_fallback_documentation project_data)]
         else if length built > 1 then overview_tab toc # built
         else built)"
  by (simp add: assemble_final_documentation_def Let_def)

lemma assemble_numbers:
  "numbers (tabs (assemble_final_documentation stamp e project_data))
     = [1..<Suc (length (numbers (tabs (assemble_final_documentation stamp e project_data))))]"
proof -
  define v where "v = validate_results e"
  define built where "built = tabs_built (build_tabs (full_toc stamp v project_data) v)"
  have nb: "numbers built = map Suc [0..<length built]"
    using numbered_build_tabs [of "full_toc stamp v project_data" v]
    unfolding built_def numbered_def by (intro numbers_of_numbered) simp
  then have len: "length (numbers built) = length built"
    by simp
  from nb have "numbers built = [1..<Suc (length built)]"
    by (simp add: map_Suc_upt del: upt_Suc)
  with len have built: "numbers built = [1..<Suc (length (numbers built))]"
    by (simp del: upt_Suc)
  have "numbers (tabs (assemble_final_documentation stamp e project_data)) = []
        \<or> numbers (tabs (assemble_final_documentation stamp e project_data)) = numbers built"
    by (simp add: assemble_tabs Let_def v_def built_def numbers_Cons overview_tab_def fallback_tab_def)
  with built show ?thesis
    by (auto simp del: upt_Suc)
qed

lemma simulate_numbers: "numbers (tabs (simulate_comprehensive_generation clk project_data)) = []"
  by (rule numbers_of_unnumbered)
    (auto simp: simulate_comprehensive_generation_def Let_def simulated_tab_def)

text \<open>
  Claim C4, as the code has it.  In every result of the generation, the tabs that
  carry a section number carry the numbers 1, 2, ..., k in the order of the list,
  with no gap and no repeat; these are the tabs that \<open>_try_add_tab\<close> builds from
  the agents' results.  The tabs of the simulation carry no section number, and
  neither do the overview tab and the fallback tabs (\<open>overview_tab\<close>,
  \<open>fallback_tab\<close>): they are built without the key.
\<close>

theorem section_numbers_of_built_tabs:
  "numbers (tabs (generate_comprehensive_documentation clk client futures project_data))
     = [1..<Suc (length (numbers
          (tabs (generate_comprehensive_documentation clk client futures project_data))))]
   \<and> numbers (tabs (assemble_final_documentation stamp e project_data))
     = [1..<Suc (length (numbers (tabs (assemble_final_documentation stamp e project_data))))]
   \<and> numbers (tabs (generate_comprehensive_documentation clk False futures project_data)) = []
   \<and> section_number (overview_tab toc) = None
   \<and> section_number (fallback_tab t fallback) = None"
proof -
  have "numbers (tabs (generate_comprehensive_documentation clk client futures project_data)) = []
        \<or> (\<exists>e. numbers (tabs (generate_comprehensive_documentation clk client futures project_data))
                = numbers (tabs (assemble_final_documentation (strftime_now clk) e project_data)))"
    by (auto simp: generate_comprehensive_documentation_def Let_def simulate_numbers
        split: prod.split)
  then have "numbers (tabs (generate_comprehensive_documentation clk client futures project_data))
     = [1..<Suc (length (numbers
          (tabs (generate_comprehensive_documentation clk client futures project_data))))]"
    using assemble_numbers by (elim disjE exE) (simp_all del: upt_Suc)
  moreover have
    "numbers (tabs (generate_comprehensive_documentation clk False futures project_data)) = []"
    by (simp add: generate_comprehensive_documentation_def simulate_numbers)
  moreover note assemble_numbers [of stamp e project_data]
  ultimately show ?thesis
    by (simp add: overview_tab_def fallback_tab_def del: upt_Suc)
qed

text \<open>The claim as stated fails on the simulation path: none of its nine tabs has
  a section number.\<close>

theorem simulated_tabs_have_no_numbers:
  "map section_number (tabs (generate_comprehensive_documentation
      \<lparr>strftime_now = ''2024-05-01 12:00:00'', isoformat_now = ''2024-05-01T12:00:00'',
        elapsed_ms = 3000\<rparr> False []
      \<lparr>title = Some ''Demo'', description = None, files = []\<rparr>))
     = [None, None, None, None, None, None, None, None, None]
   \<and> map section_number (tabs (generate_comprehensive_documentation
      \<lparr>strftime_now = ''2024-05-01 12:00:00'', isoformat_now = ''2024-05-01T12:00:00'',
        elapsed_ms = 3000\<rparr> False []
      \<lparr>title = Some ''Demo'', description = None, files = []\<rparr>))
     \<noteq> map Some [1..<10]"
proof -
  have "map section_number (tabs (simulate_comprehensive_generation clk project_data))
          = [None, None, None, None, None, None, None, None, None]" for clk project_data
    by (simp add: simulate_comprehensive_generation_def Let_def simulated_tab_def
        agent_sections_def)
  then show ?thesis
    by (simp add: generate_comprehensive_documentation_def upt_rec)
qed

section \<open>What the validation lets through\<close>

lemma is_valid_content:
  "is_valid r \<Longrightarrow> str_strip (res_content r) \<noteq> []
     \<and> 100 \<le> length (non_heading_words (str_strip (res_content r)))
     \<and> \<not> list_ex (\<lambda>p. str_contains p (str_lower (str_strip (res_content r)))) failure_phrases"
  by (simp add: is_valid_def Let_def split: if_splits)

text \<open>Every tab that \<open>_try_add_tab\<close> has built comes from a valid result: it bears
  the name of its agent, and its content is the stripped content of the result.\<close>

definition from_valid :: "results \<Rightarrow> tab \<Rightarrow> bool" where
  "from_valid v t =
     (\<exists>r. (tab_agent t, r) \<in> set v \<and> is_valid r
          \<and> tab_content t = str_strip (res_content r)
          \<and> word_count t = length (non_heading_words (str_strip (res_content r)))
          \<and> section_number t \<noteq> None)"

lemma built_from_valid:
  "\<forall>t \<in> set (tabs_built (build_tabs toc (validate_results e))). from_valid (validate_results e) t"
proof (rule build_tabs_invariant
    [where P = "\<lambda>st. \<forall>t \<in> set (tabs_built st). from_valid (validate_results e) t"])
  show "\<forall>t \<in> set (tabs_built (initial_assembly toc)). from_valid (validate_results e) t"
    by (simp add: initial_assembly_def)
next
  fix st :: assembly and t a r
  assume st: "\<forall>t \<in> set (tabs_built st). from_valid (validate_results e) t"
    and r: "(a, r) \<in> set (validate_results e)"
  from r have "is_valid r"
    by (simp add: validate_results_sound)
  with r have "from_valid (validate_results e) (new_tab st t (str_strip (res_content r)) a)"
    by (auto simp: from_valid_def new_tab_def)
  with st show "\<forall>t' \<in> set (tabs_built (snd (try_add_tab st t (str_strip (res_content r)) a))).
                  from_valid (validate_results e) t'"
    by (auto simp: try_add_tab_eq accepted_def)
qed

lemma full_toc_nonempty: "full_toc stamp v project_data \<noteq> []"
  by (simp add: full_toc_def toc_lines_def str_join_nonempty)

lemma simulated_content_nonempty: "simulated_content project_data section_title descr \<noteq> []"
  by (simp add: simulated_content_def Let_def)

text \<open>The tabs of an assembled document: the overview, a fallback tab, or a tab
  built from a valid result.\<close>

lemma assemble_tab_cases:
  assumes "t \<in> set (tabs (assemble_final_documentation stamp e project_data))"
  shows "t = overview_tab (full_toc stamp (validate_results e) project_data)
         \<or> (\<exists>ti. t = fallback_tab ti (create_fallback_documentation project_data))
         \<or> from_valid (validate_results e) t"
  using assms built_from_valid [of "full_toc stamp (validate_results e) project_data" e]
  by (auto simp: assemble_tabs Let_def split: if_splits)

lemma simulate_tab_cases:
  assumes "t \<in> set (tabs (simulate_comprehensive_generation clk project_data))"
  shows "section_number t = None \<and> tab_content t \<noteq> []
         \<and> (tab_agent t = ''Orchestrator''
            \<or> tab_agent t \<in> (\<lambda>(section_title, descr). section_title @ '' Agent'') ` set agent_sections)"
proof -
  have "str_join ''\<newline>'' (take 8 (simulation_header (strftime_now clk) project_data @ rest)) \<noteq> []"
    for rest
    by (simp add: simulation_header_def str_join_nonempty)
  with assms show ?thesis
    by (auto simp: simulate_comprehensive_generation_def Let_def simulated_tab_def
        simulated_content_nonempty)
qed

lemma generate_tab_cases:
  assumes "t \<in> set (tabs (generate_comprehensive_documentation clk client futures project_data))"
  shows "t \<in> set (tabs (simulate_comprehensive_generation clk project_data))
         \<or> (\<exists>ti. t = fallback_tab ti (create_fallback_documentation project_data))
         \<or> (client \<and> t \<in> set (tabs (assemble_final_documentation (strftime_now clk)
               (enhance_cross_references (fst (run_agents_parallel futures)) project_data)
               project_data)))"
  using assms
  by (auto simp: generate_comprehensive_documentation_def Let_def split: prod.splits if_splits)

text \<open>
  Claim C7, as the code has it.  Every tab of a result has a non-empty content, and
  every tab built from an agent's result (the tabs with a section number) has a
  word count of at least 100, its words that are no headings.  An agent all of
  whose results, as the assembly receives them, have fewer than 100 such words has
  no tab built from it.  The overview tab of the assembly and that of the
  simulation are not held to the 100 words: they are inserted after the
  validation, with the word count of the table of contents.
\<close>

theorem tabs_nonempty_and_built_tabs_100_words:
  "(\<forall>t \<in> set (tabs (generate_comprehensive_documentation clk client futures project_data)).
       tab_content t \<noteq> [] \<and> (section_number t \<noteq> None \<longrightarrow> 100 \<le> word_count t))
   \<and> ((\<forall>r. (a, r) \<in> set e \<longrightarrow> length (non_heading_words (str_strip (res_content r))) < 100)
        \<longrightarrow> (\<forall>t \<in> set (tabs (assemble_final_documentation stamp e project_data)).
               section_number t \<noteq> None \<longrightarrow> tab_agent t \<noteq> a))"
proof (rule conjI; intro ballI impI; (elim conjE)?)
  fix t
  assume t: "t \<in> set (tabs (generate_comprehensive_documentation clk client futures project_data))"
  have valid: "tab_content t' \<noteq> [] \<and> 100 \<le> word_count t'" if "from_valid v t'" for v t'
  proof -
    from that obtain r where "is_valid r" "tab_content t' = str_strip (res_content r)"
      "word_count t' = length (non_heading_words (str_strip (res_content r)))"
      by (auto simp: from_valid_def)
    with is_valid_content [of r] show ?thesis
      by simp
  qed
  from generate_tab_cases [OF t] consider
    (sim) "t \<in> set (tabs (simulate_comprehensive_generation clk project_data))"
    | (fb) ti where "t = fallback_tab ti (create_fallback_documentation project_data)"
    | (asm) "t \<in> set (tabs (assemble_final_documentation (strftime_now clk)
               (enhance_cross_references (fst (run_agents_parallel futures)) project_data)
               project_data))"
    by fast
  then show "tab_content t \<noteq> [] \<and> (section_number t \<noteq> None \<longrightarrow> 100 \<le> word_count t)"
  proof cases
    case sim
    from simulate_tab_cases [OF this] show ?thesis
      by simp
  next
    case fb
    then show ?thesis
      by (simp add: fallback_tab_def create_fallback_documentation_nonempty)
  next
    case asm
    from assemble_tab_cases [OF this] show ?thesis
      using valid
      by (auto simp: overview_tab_def fallback_tab_def full_toc_nonempty
          create_fallback_documentation_nonempty)
  qed
next
  fix t
  assume few: "\<forall>r. (a, r) \<in> set e \<longrightarrow> length (non_heading_words (str_strip (res_content r))) < 100"
    and t: "t \<in> set (tabs (assemble_final_documentation stamp e project_data))"
    and n: "section_number t \<noteq> None"
  from assemble_tab_cases [OF t] n have "from_valid (validate_results e) t"
    by (auto simp: overview_tab_def fallback_tab_def)
  then obtain r where r: "(tab_agent t, r) \<in> set (validate_results e)" "is_valid r"
    by (auto simp: from_valid_def)
  then have "(tab_agent t, r) \<in> set e" "100 \<le> length (non_heading_words (str_strip (res_content r)))"
    using validate_results_sound is_valid_content by blast+
  with few show "tab_agent t \<noteq> a"
    by force
qed

section \<open>The placeholder of a failed agent\<close>

definition result_of :: "string \<Rightarrow> future_result \<Rightarrow> agent_result" where
  "result_of agent_name fr =
     (case fr of
        Returned c n \<Rightarrow> \<lparr>res_content = c, res_tokens = n\<rparr>
      | Raised e \<Rightarrow> \<lparr>res_content = failure_placeholder agent_name e, res_tokens = 0\<rparr>)"

lemma in_update_cases: "p \<in> set (AList.update k v al) \<Longrightarrow> p = (k, v) \<or> p \<in> set al"
  using set_update_subset [of k v al] by blast

lemma run_agents_entries:
  assumes "(a, r) \<in> set (fst (run_agents_parallel futures))"
  shows "\<exists>fr. (a, fr) \<in> set futures \<and> r = result_of a fr"
proof -
  have "\<forall>p \<in> set (fst (run_agents_parallel futures)).
          \<exists>fr. (fst p, fr) \<in> set futures \<and> snd p = result_of (fst p) fr"
    unfolding run_agents_parallel_def
  proof (rule foldl_invariant
      [where P = "\<lambda>st. \<forall>p \<in> set (fst st). \<exists>fr. (fst p, fr) \<in> set futures
                                                 \<and> snd p = result_of (fst p) fr"])
    fix st :: "results \<times> nat" and x :: "string \<times> future_result"
    assume st: "\<forall>p \<in> set (fst st). \<exists>fr. (fst p, fr) \<in> set futures \<and> snd p = result_of (fst p) fr"
      and x: "x \<in> set futures"
    obtain rs tot where s: "st = (rs, tot)"
      by (cases st)
    obtain k fr where kf: "x = (k, fr)"
      by (cases x)
    have "fst (collect_future st x) = AList.update k (result_of k fr) rs"
      by (cases fr) (simp_all add: s kf collect_future_def result_of_def)
    moreover have "\<exists>fr. (fst p, fr) \<in> set futures \<and> snd p = result_of (fst p) fr"
      if "p \<in> set (AList.update k (result_of k fr) rs)" for p
      using in_update_cases [OF that] st x by (auto simp: s kf)
    ultimately show "\<forall>p \<in> set (fst (collect_future st x)).
            \<exists>fr. (fst p, fr) \<in> set futures \<and> snd p = result_of (fst p) fr"
      by simp
  qed simp
  with assms show ?thesis
    by force
qed

lemma enhance_entries:
  assumes "(a, r) \<in> set (enhance_cross_references rs project_data)"
  shows "\<exists>r0 cs. (a, r0) \<in> set rs
           \<and> res_content r = add_cross_references (res_content r0) a cs project_data"
proof -
  define cs where "cs = foldl (\<lambda>cs (agent_name, result).
      AList.update agent_name (summary_of (res_content result)) cs) [] rs"
  have "\<forall>p \<in> set (enhance_cross_references rs project_data).
          \<exists>r0. (fst p, r0) \<in> set rs
             \<and> res_content (snd p) = add_cross_references (res_content r0) (fst p) cs project_data"
    unfolding enhance_cross_references_def Let_def cs_def [symmetric]
  proof (rule foldl_invariant
      [where P = "\<lambda>st. \<forall>p \<in> set st. \<exists>r0. (fst p, r0) \<in> set rs
          \<and> res_content (snd p) = add_cross_references (res_content r0) (fst p) cs project_data"])
    fix st :: results and x :: "string \<times> agent_result"
    assume st: "\<forall>p \<in> set st. \<exists>r0. (fst p, r0) \<in> set rs
          \<and> res_content (snd p) = add_cross_references (res_content r0) (fst p) cs project_data"
      and x: "x \<in> set rs"
    obtain k w where kw: "x = (k, w)"
      by (cases x)
    define w' where "w' = \<lparr>res_content = add_cross_references (res_content w) k cs project_data,
                           res_tokens = res_tokens w\<rparr>"
    have "\<exists>r0. (fst p, r0) \<in> set rs
          \<and> res_content (snd p) = add_cross_references (res_content r0) (fst p) cs project_data"
      if "p \<in> set (AList.update k w' st)" for p
      using in_update_cases [OF that] st x by (auto simp: kw w'_def)
    then show "\<forall>p \<in> set (case x of (agent_name, result) \<Rightarrow>
              AList.update agent_name
                \<lparr>res_content = add_cross_references (res_content result) agent_name cs project_data,
                 res_tokens = res_tokens result\<rparr> st).
            \<exists>r0. (fst p, r0) \<in> set rs
              \<and> res_content (snd p) = add_cross_references (res_content r0) (fst p) cs project_data"
      by (simp add: kw w'_def)
  qed simp
  with assms show ?thesis
    by force
qed

lemma add_cross_references_append:
  "\<exists>x. add_cross_references c a cs project_data = c @ x"
  by (simp add: add_cross_references_def Let_def)

lemma str_strip_keeps:
  assumes "s \<noteq> []" "\<not> is_space (hd s)" "\<not> is_space (last s)"
  shows "\<exists>z. str_strip (s @ x) = s @ z"
proof -
  from assms have a: "dropWhile is_space (s @ x) = s @ x"
    by (cases s) simp_all
  from assms have "rev s \<noteq> []" "\<not> is_space (hd (rev s))"
    by (simp_all add: hd_rev)
  then have b: "dropWhile is_space (rev s) = rev s"
    by (cases "rev s") simp_all
  have "\<exists>y. dropWhile is_space (rev x @ rev s) = y @ rev s"
    by (simp add: dropWhile_append b)
  then obtain y where "dropWhile is_space (rev x @ rev s) = y @ rev s"
    by blast
  then have "str_strip (s @ x) = s @ rev y"
    by (simp add: str_strip_def a)
  then show ?thesis
    by blast
qed

lemma str_lower_append: "str_lower (a @ b) = str_lower a @ str_lower b"
  by (simp add: str_lower_def)

lemma lower_marker: "str_lower ''*Analysis failed: '' = ''*analysis failed: ''"
  by code_simp

lemma str_contains_lower_middle:
  "str_contains m (str_lower u) \<Longrightarrow> str_contains m (str_lower (l @ u @ r))"
  by (simp add: str_lower_append str_contains_append_left str_contains_append_right)

lemma placeholder_marker:
  "str_contains ''analysis failed'' (str_lower (str_strip (failure_placeholder a e @ x)))"
proof -
  have "failure_placeholder a e \<noteq> []" "\<not> is_space (hd (failure_placeholder a e))"
    "\<not> is_space (last (failure_placeholder a e))"
    by (simp_all add: failure_placeholder_def is_space_def)
  from str_strip_keeps [OF this] obtain z
    where z: "str_strip (failure_placeholder a e @ x) = failure_placeholder a e @ z"
    by blast
  have shape: "failure_placeholder a e @ z
      = (''# '' @ a @ '' Analysis\<newline>\<newline>'') @ ''*Analysis failed: '' @ (e @ ''*'' @ z)"
    by (simp add: failure_placeholder_def)
  have "str_contains ''analysis failed'' (str_lower ''*Analysis failed: '')"
    unfolding lower_marker by simp
  then show ?thesis
    unfolding z shape by (rule str_contains_lower_middle)
qed

lemma placeholder_invalid:
  "res_content r = failure_placeholder a e @ x \<Longrightarrow> \<not> is_valid r"
  using placeholder_marker [of a e x]
  by (simp add: is_valid_def Let_def failure_phrases_def)

lemma roster_names_apart:
  assumes "a \<in> fst ` set agent_configs"
  shows "a \<noteq> ''Orchestrator''" "a \<noteq> ''Fallback''"
    "a \<notin> (\<lambda>(section_title, descr). section_title @ '' Agent'') ` set agent_sections"
  using assms by (auto simp: agent_configs_def agent_sections_def)

text \<open>
  Claim C10.  The placeholder that \<open>_run_agents_parallel\<close> stores for an agent whose
  task raised holds the marker \<open>analysis failed\<close> in lower case, which is one of the
  phrases of the validation filter; the filter rejects the placeholder, as it is and
  with the cross-references appended.  So when the task of an agent of the roster
  raised, no tab of the result of the generation bears the name of that agent.
\<close>

theorem failed_agent_never_a_section:
  assumes "\<forall>fr. (a, fr) \<in> set futures \<longrightarrow> (\<exists>e. fr = Raised e)"
    and "a \<in> fst ` set agent_configs"
  shows "''analysis failed'' \<in> set failure_phrases
     \<and> str_contains ''analysis failed'' (str_lower (str_strip (failure_placeholder a e)))
     \<and> \<not> is_valid \<lparr>res_content = failure_placeholder a e, res_tokens = 0\<rparr>
     \<and> \<not> is_valid \<lparr>res_content = add_cross_references (failure_placeholder a e) a cs project_data,
                     res_tokens = 0\<rparr>
     \<and> (\<forall>t \<in> set (tabs (generate_comprehensive_documentation clk client futures project_data)).
           tab_agent t \<noteq> a)"
proof (intro conjI ballI)
  show "''analysis failed'' \<in> set failure_phrases"
    by (simp add: failure_phrases_def)
  show "str_contains ''analysis failed'' (str_lower (str_strip (failure_placeholder a e)))"
    using placeholder_marker [of a e "[]"] by simp
  show "\<not> is_valid \<lparr>res_content = failure_placeholder a e, res_tokens = 0\<rparr>"
    by (rule placeholder_invalid [of _ a e "[]"]) simp
  show "\<not> is_valid \<lparr>res_content = add_cross_references (failure_placeholder a e) a cs project_data,
                     res_tokens = 0\<rparr>"
  proof -
    obtain x where "add_cross_references (failure_placeholder a e) a cs project_data
        = failure_placeholder a e @ x"
      using add_cross_references_append by blast
    then show ?thesis
      by (intro placeholder_invalid [of _ a e x]) simp
  qed
next
  fix t
  assume t: "t \<in> set (tabs (generate_comprehensive_documentation clk client futures project_data))"
  note apart = roster_names_apart [OF assms(2)]
  from generate_tab_cases [OF t] consider
    (sim) "t \<in> set (tabs (simulate_comprehensive_generation clk project_data))"
    | (fb) ti where "t = fallback_tab ti (create_fallback_documentation project_data)"
    | (asm) "t \<in> set (tabs (assemble_final_documentation (strftime_now clk)
               (enhance_cross_references (fst (run_agents_parallel futures)) project_data)
               project_data))"
    by fast
  then show "tab_agent t \<noteq> a"
  proof cases
    case sim
    from simulate_tab_cases [OF this] apart show ?thesis
      by auto
  next
    case fb
    with apart show ?thesis
      by (simp add: fallback_tab_def)
  next
    case asm
    define en where "en = enhance_cross_references (fst (run_agents_parallel futures)) project_data"
    from assemble_tab_cases [OF asm] consider
      (ov) "t = overview_tab (full_toc (strftime_now clk) (validate_results en) project_data)"
      | (fb2) ti where "t = fallback_tab ti (create_fallback_documentation project_data)"
      | (built) "from_valid (validate_results en) t"
      unfolding en_def by fast
    then show ?thesis
    proof cases
      case ov
      with apart show ?thesis
        by (simp add: overview_tab_def)
    next
      case fb2
      with apart show ?thesis
        by (simp add: fallback_tab_def)
    next
      case built
      then obtain r where r: "(tab_agent t, r) \<in> set (validate_results en)" "is_valid r"
        by (auto simp: from_valid_def)
      show ?thesis
      proof
        assume eq: "tab_agent t = a"
        from r validate_results_sound have "(a, r) \<in> set en"
          unfolding eq by blast
        from enhance_entries [OF this [unfolded en_def]] obtain r0 cs'
          where r0: "(a, r0) \<in> set (fst (run_agents_parallel futures))"
            and c: "res_content r = add_cross_references (res_content r0) a cs' project_data"
          by blast
        from run_agents_entries [OF r0] obtain fr
          where fr: "(a, fr) \<in> set futures" "r0 = result_of a fr"
          by blast
        with assms(1) obtain e' where "fr = Raised e'"
          by blast
        with fr have "res_content r0 = failure_placeholder a e'"
          by (simp add: result_of_def)
        with c add_cross_references_append [of "failure_placeholder a e'" a cs' project_data]
        have "\<exists>x. res_content r = failure_placeholder a e' @ x"
          by simp
        with r(2) show False
          using placeholder_invalid by blast
      qed
    qed
  qed
qed

section \<open>No two accepted sections are duplicates\<close>

text \<open>Two contents are apart when their fingerprints differ and the later is not too
  similar to the earlier; the state of the assembly is deduplicated when the tabs
  built so far are pairwise apart and the set of hashes seen holds their
  fingerprints.\<close>

definition apart :: "string \<Rightarrow> string \<Rightarrow> bool" where
  "apart x y = (fingerprint x \<noteq> fingerprint y \<and> \<not> too_similar x y)"

definition deduplicated :: "assembly \<Rightarrow> bool" where
  "deduplicated st =
     (created_tabs st = tabs_built st
      \<and> seen_hashes st = (\<lambda>t. fingerprint (tab_content t)) ` set (tabs_built st)
      \<and> (\<forall>j < length (tabs_built st). \<forall>i < j.
            apart (tab_content (tabs_built st ! i)) (tab_content (tabs_built st ! j))))"

lemma deduplicated_step:
  assumes "deduplicated st"
  shows "deduplicated (snd (try_add_tab st t c a))"
proof (cases "rejects st t c")
  case True
  with assms show ?thesis
    by (simp add: try_add_tab_eq)
next
  case False
  define built where "built = tabs_built st"
  from assms have inv: "created_tabs st = built"
    "seen_hashes st = (\<lambda>t. fingerprint (tab_content t)) ` set built"
    "\<forall>j < length built. \<forall>i < j. apart (tab_content (built ! i)) (tab_content (built ! j))"
    by (simp_all add: deduplicated_def built_def)
  have new: "\<forall>x \<in> set built. apart (tab_content x) c"
  proof
    fix x
    assume x: "x \<in> set built"
    from False have h: "fingerprint c \<notin> seen_hashes st"
      and s: "\<not> list_ex (\<lambda>existing. too_similar (tab_content existing) c) (created_tabs st)"
      by (simp_all add: rejects_def)
    from x inv(2) have "fingerprint (tab_content x) \<in> seen_hashes st"
      by simp
    with h have "fingerprint (tab_content x) \<noteq> fingerprint c"
      by metis
    moreover from s x inv(1) have "\<not> too_similar (tab_content x) c"
      by (simp add: list_ex_iff)
    ultimately show "apart (tab_content x) c"
      by (simp add: apart_def)
  qed
  have "apart (tab_content ((built @ [new_tab st t c a]) ! i))
              (tab_content ((built @ [new_tab st t c a]) ! j))"
    if "j < Suc (length built)" "i < j" for i j
  proof (cases "j < length built")
    case True
    with that inv(3) show ?thesis
      by (simp add: nth_append)
  next
    case False
    with that have "j = length built" "i < length built"
      by simp_all
    with new show ?thesis
      by (simp add: nth_append new_tab_def)
  qed
  with False inv show ?thesis
    by (simp add: try_add_tab_eq deduplicated_def accepted_def built_def [symmetric] new_tab_def)
qed

lemma deduplicated_build_tabs: "deduplicated (build_tabs toc v)"
proof (rule build_tabs_invariant [where P = deduplicated])
  show "deduplicated (initial_assembly toc)"
    by (simp add: deduplicated_def initial_assembly_def)
qed (rule deduplicated_step)

text \<open>The accepted sections of a document: its tabs with a section number.\<close>

definition accepted_sections :: "documentation \<Rightarrow> tab list" where
  "accepted_sections doc = filter (\<lambda>t. section_number t \<noteq> None) (tabs doc)"

lemma filter_numbered_built:
  "map section_number ts = map (\<lambda>i. Some (Suc i)) [0..<length ts]
   \<Longrightarrow> filter (\<lambda>t. section_number t \<noteq> None) ts = ts"
proof -
  assume a: "map section_number ts = map (\<lambda>i. Some (Suc i)) [0..<length ts]"
  have "section_number t \<noteq> None" if "t \<in> set ts" for t
  proof -
    from that have "section_number t \<in> set (map section_number ts)"
      by simp
    then show ?thesis
      unfolding a by auto
  qed
  then show ?thesis
    by (simp add: filter_id_conv)
qed

lemma accepted_sections_assemble:
  "accepted_sections (assemble_final_documentation stamp e project_data) = []
   \<or> accepted_sections (assemble_final_documentation stamp e project_data)
       = tabs_built (build_tabs (full_toc stamp (validate_results e) project_data)
           (validate_results e))"
proof -
  define built where "built = tabs_built (build_tabs
      (full_toc stamp (validate_results e) project_data) (validate_results e))"
  have "filter (\<lambda>t. section_number t \<noteq> None) built = built"
    using numbered_build_tabs [of "full_toc stamp (validate_results e) project_data"
        "validate_results e"]
    unfolding built_def numbered_def by (intro filter_numbered_built) simp
  then show ?thesis
    by (simp add: accepted_sections_def assemble_tabs Let_def built_def [symmetric]
        fallback_tab_def overview_tab_def)
qed

lemma not_too_similar_ratio:
  "\<not> too_similar x y \<Longrightarrow>
   20 * card (word_set x \<inter> word_set y) \<le> 13 * max (card (word_set x)) (card (word_set y))"
  by (auto simp: too_similar_def Let_def)

text \<open>
  Claim C3.  In an assembled document any two accepted sections, an earlier and a
  later one, have different fingerprints (the MD5 digest of the cleaned content,
  lower case, whitespace collapsed), and the number of words they share is at most
  0.65 of the size of the larger of their two word sets.  A candidate that is too
  similar to a tab already created is rejected by \<open>_try_add_tab\<close>, whatever its
  title and its fingerprint are: the state of the assembly stays as it is.
\<close>

theorem accepted_sections_no_duplicates:
  "(\<forall>j < length (accepted_sections (assemble_final_documentation stamp e project_data)).
      \<forall>i < j.
        fingerprint (tab_content
            (accepted_sections (assemble_final_documentation stamp e project_data) ! i))
          \<noteq> fingerprint (tab_content
            (accepted_sections (assemble_final_documentation stamp e project_data) ! j))
        \<and> 20 * card (word_set (tab_content
                (accepted_sections (assemble_final_documentation stamp e project_data) ! i))
              \<inter> word_set (tab_content
                (accepted_sections (assemble_final_documentation stamp e project_data) ! j)))
            \<le> 13 * max
                (card (word_set (tab_content
                  (accepted_sections (assemble_final_documentation stamp e project_data) ! i))))
                (card (word_set (tab_content
                  (accepted_sections (assemble_final_documentation stamp e project_data) ! j)))))
   \<and> (list_ex (\<lambda>existing. too_similar (tab_content existing) c) (created_tabs st)
        \<longrightarrow> try_add_tab st t c a = (False, st))"
proof (rule conjI)
  define acc where "acc = accepted_sections (assemble_final_documentation stamp e project_data)"
  have "\<forall>j < length acc. \<forall>i < j. apart (tab_content (acc ! i)) (tab_content (acc ! j))"
    using accepted_sections_assemble [of stamp e project_data]
      deduplicated_build_tabs [of "full_toc stamp (validate_results e) project_data"
        "validate_results e"]
    unfolding acc_def [symmetric] deduplicated_def by auto
  then show "\<forall>j < length acc. \<forall>i < j.
      fingerprint (tab_content (acc ! i)) \<noteq> fingerprint (tab_content (acc ! j))
      \<and> 20 * card (word_set (tab_content (acc ! i)) \<inter> word_set (tab_content (acc ! j)))
          \<le> 13 * max (card (word_set (tab_content (acc ! i))))
                      (card (word_set (tab_content (acc ! j))))"
    using not_too_similar_ratio by (simp add: apart_def)
next
  show "list_ex (\<lambda>existing. too_similar (tab_content existing) c) (created_tabs st)
        \<longrightarrow> try_add_tab st t c a = (False, st)"
    by (simp add: try_add_tab_eq rejects_def)
qed

section \<open>The assembly and the clock\<close>

lemma foldl_related:
  assumes "R s s'" and "\<And>a b x. R a b \<Longrightarrow> x \<in> set xs \<Longrightarrow> R (f a x) (f' b x)"
  shows "R (foldl f s xs) (foldl f' s' xs)"
  using assms by (induction xs rule: rev_induct) simp_all

text \<open>Two states of the assembly that began with different tables of contents and
  were offered the same candidates differ in the first part of the text only.\<close>

definition same_but_toc :: "string \<Rightarrow> string \<Rightarrow> assembly \<Rightarrow> assembly \<Rightarrow> bool" where
  "same_but_toc toc toc' st st' =
     (tabs_built st = tabs_built st' \<and> created_tabs st = created_tabs st'
      \<and> seen_hashes st = seen_hashes st' \<and> seen_titles st = seen_titles st'
      \<and> section_count st = section_count st'
      \<and> (\<exists>rest. full_content_parts st = (toc @ ''\<newline>\<newline>---\<newline>'') # rest
                \<and> full_content_parts st' = (toc' @ ''\<newline>\<newline>---\<newline>'') # rest))"

lemma same_but_toc_step:
  "same_but_toc toc toc' st st'
   \<Longrightarrow> same_but_toc toc toc' (snd (try_add_tab st t c a)) (snd (try_add_tab st' t c a))"
  by (auto simp: same_but_toc_def try_add_tab_eq rejects_def accepted_def new_tab_def)

lemma same_but_toc_build: "same_but_toc toc toc' (build_tabs toc v) (build_tabs toc' v)"
  unfolding build_tabs_def
proof (rule foldl_related [where R = "same_but_toc toc toc'"])
  show "same_but_toc toc toc' (foldl (add_ordered v) (initial_assembly toc) section_order)
          (foldl (add_ordered v) (initial_assembly toc') section_order)"
  proof (rule foldl_related [where R = "same_but_toc toc toc'"])
    show "same_but_toc toc toc' (initial_assembly toc) (initial_assembly toc')"
      by (simp add: same_but_toc_def initial_assembly_def)
  next
    fix st st' :: assembly and a
    assume "same_but_toc toc toc' st st'"
    then show "same_but_toc toc toc' (add_ordered v st a) (add_ordered v st' a)"
      by (simp add: add_ordered_def same_but_toc_step)
  qed
next
  fix st st' :: assembly and x :: "string \<times> agent_result"
  assume "same_but_toc toc toc' st st'"
  then show "same_but_toc toc toc' (add_other st x) (add_other st' x)"
    by (cases x) (simp add: add_other_def Let_def same_but_toc_step)
qed

text \<open>When a result is valid, a tab is built: the first candidate offered meets the
  initial state, which rejects nothing, and a tab once built stays.\<close>

definition offered :: "string \<Rightarrow> assembly \<Rightarrow> bool \<Rightarrow> bool" where
  "offered toc st b = (if b then tabs_built st \<noteq> [] else st = initial_assembly toc)"

lemma offered_step: "offered toc st b \<Longrightarrow> offered toc (snd (try_add_tab st t c a)) True"
  by (cases b) (auto simp: offered_def try_add_tab_eq accepted_def rejects_def initial_assembly_def)

lemma foldl_or: "foldl (\<lambda>b x. b \<or> g x) b0 xs = (b0 \<or> (\<exists>x \<in> set xs. g x))"
  by (induction xs arbitrary: b0) auto

lemma valid_builds_a_tab:
  assumes "validate_results e \<noteq> []"
  shows "tabs_built (build_tabs toc (validate_results e)) \<noteq> []"
proof -
  define v where "v = validate_results e"
  define s1 where "s1 = foldl (add_ordered v) (initial_assembly toc) section_order"
  have 1: "offered toc s1 (foldl (\<lambda>b a. b \<or> has_key a v) False section_order)"
    unfolding s1_def
  proof (rule foldl_related [where R = "offered toc"])
    show "offered toc (initial_assembly toc) False"
      by (simp add: offered_def)
  next
    fix st b a
    assume "offered toc st b"
    then show "offered toc (add_ordered v st a) (b \<or> has_key a v)"
      using offered_step [of toc st b] by (cases b) (auto simp: add_ordered_def)
  qed
  define b1 where "b1 = (\<exists>a \<in> set section_order. has_key a v)"
  from 1 have 1: "offered toc s1 b1"
    by (simp add: foldl_or b1_def)
  have "offered toc (foldl add_other s1 v)
          (foldl (\<lambda>b x. b \<or> fst x \<notin> set section_order) b1 v)"
  proof (rule foldl_related [where R = "offered toc"])
    show "offered toc s1 b1"
      by (rule 1)
  next
    fix st b and x :: "string \<times> agent_result"
    assume st: "offered toc st b" and x: "x \<in> set v"
    obtain a r where ar: "x = (a, r)"
      by (cases x)
    with x have "is_valid r"
      using validate_results_sound unfolding v_def by blast
    then have "str_strip (res_content r) \<noteq> []"
      by (simp add: is_valid_content)
    with st show "offered toc (add_other st x) (b \<or> fst x \<notin> set section_order)"
      using offered_step [of toc st b] by (cases b) (auto simp: ar add_other_def Let_def)
  qed
  then have 2: "offered toc (build_tabs toc v)
                  (b1 \<or> (\<exists>x \<in> set v. fst x \<notin> set section_order))"
    by (simp add: foldl_or build_tabs_def s1_def)
  from assms obtain x where x: "x \<in> set v"
    unfolding v_def by (cases "validate_results e") auto
  have "b1 \<or> (\<exists>x \<in> set v. fst x \<notin> set section_order)"
  proof (cases "fst x \<in> set section_order")
    case True
    with x have "has_key (fst x) v"
      by (auto simp: has_key_def)
    with True show ?thesis
      unfolding b1_def by blast
  next
    case False
    with x show ?thesis
      by blast
  qed
  with 2 show ?thesis
    by (simp add: offered_def v_def)
qed

text \<open>The text of the document when a result is valid: the clock reading stands
  between a head and a tail that do not depend on it.\<close>

lemma str_join_split:
  "0 < n \<Longrightarrow> n < length xs
   \<Longrightarrow> str_join sep xs = str_join sep (take n xs) @ sep @ str_join sep (drop n xs)"
proof (induction xs arbitrary: n)
  case Nil
  then show ?case by simp
next
  case (Cons x xs)
  show ?case
  proof (cases n)
    case 0
    with Cons.prems show ?thesis by simp
  next
    case (Suc m)
    show ?thesis
    proof (cases m)
      case 0
      with Suc Cons.prems show ?thesis
        by (cases xs) simp_all
    next
      case (Suc k)
      with \<open>n = Suc m\<close> Cons.prems Cons.IH [of m] show ?thesis
        by (cases xs) (simp_all add: str_join_Cons)
    qed
  qed
qed

lemma full_toc_stamp:
  "\<exists>H T. \<forall>stamp. full_toc stamp v project_data = H @ stamp @ T"
proof -
  have "full_toc stamp v project_data
      = (''# Comprehensive Technical Documentation\<newline>\<newline>**Project**: ''
         @ title_or ''Unknown Project'' project_data @ ''\<newline>**Generated**: '')
        @ stamp @ (''\<newline>'' @ str_join ''\<newline>'' (drop 3 (toc_lines [] v project_data)))"
    for stamp
  proof -
    have "str_join ''\<newline>'' (toc_lines stamp v project_data)
        = str_join ''\<newline>'' (take 3 (toc_lines stamp v project_data)) @ ''\<newline>''
          @ str_join ''\<newline>'' (drop 3 (toc_lines stamp v project_data))"
      by (rule str_join_split) (simp_all add: toc_lines_def)
    moreover have "drop 3 (toc_lines stamp v project_data) = drop 3 (toc_lines [] v project_data)"
      by (simp add: toc_lines_def)
    moreover have "str_join ''\<newline>'' (take 3 (toc_lines stamp v project_data))
        = ''# Comprehensive Technical Documentation\<newline>\<newline>**Project**: ''
          @ title_or ''Unknown Project'' project_data @ ''\<newline>**Generated**: '' @ stamp"
      by (simp add: toc_lines_def)
    ultimately show ?thesis
      by (simp add: full_toc_def)
  qed
  then show ?thesis
    by blast
qed

lemma content_stamp:
  assumes "validate_results e \<noteq> []"
  shows "\<exists>H T. \<forall>stamp. content (assemble_final_documentation stamp e project_data) = H @ stamp @ T"
proof -
  define v where "v = validate_results e"
  obtain H T where toc: "\<And>stamp. full_toc stamp v project_data = H @ stamp @ T"
    using full_toc_stamp by blast
  define rest where "rest = tl (full_content_parts (build_tabs (full_toc [] v project_data) v))"
  have parts: "full_content_parts (build_tabs (full_toc stamp v project_data) v)
                = (full_toc stamp v project_data @ ''\<newline>\<newline>---\<newline>'') # rest" for stamp
    using same_but_toc_build [of "full_toc stamp v project_data" "full_toc [] v project_data" v]
    by (auto simp: same_but_toc_def rest_def)
  have "content (assemble_final_documentation stamp e project_data)
          = H @ stamp @ (T @ ''\<newline>\<newline>---\<newline>''
              @ (if rest = [] then [] else ''\<newline>'' @ str_join ''\<newline>'' rest))" for stamp
  proof -
    have "content (assemble_final_documentation stamp e project_data)
        = str_join ''\<newline>'' (full_content_parts (build_tabs (full_toc stamp v project_data) v))"
      using assms valid_builds_a_tab [OF assms, of "full_toc stamp v project_data"]
      by (simp add: assemble_final_documentation_def Let_def v_def [symmetric])
    then show ?thesis
      unfolding parts by (simp add: str_join_Cons toc)
  qed
  then show ?thesis
    by blast
qed

lemma content_equal_iff:
  assumes "validate_results e \<noteq> []"
  shows "content (assemble_final_documentation s1 e project_data)
           = content (assemble_final_documentation s2 e project_data) \<longleftrightarrow> s1 = s2"
proof -
  from content_stamp [OF assms] obtain H T
    where "\<And>stamp. content (assemble_final_documentation stamp e project_data) = H @ stamp @ T"
    by blast
  then show ?thesis
    by simp
qed

lemma tabs_independent_of_stamp:
  "map tab_title (tabs (assemble_final_documentation s1 e project_data))
     = map tab_title (tabs (assemble_final_documentation s2 e project_data))
   \<and> map section_number (tabs (assemble_final_documentation s1 e project_data))
     = map section_number (tabs (assemble_final_documentation s2 e project_data))
   \<and> map tab_agent (tabs (assemble_final_documentation s1 e project_data))
     = map tab_agent (tabs (assemble_final_documentation s2 e project_data))
   \<and> accepted_sections (assemble_final_documentation s1 e project_data)
     = accepted_sections (assemble_final_documentation s2 e project_data)"
proof -
  define v where "v = validate_results e"
  have "tabs_built (build_tabs (full_toc s1 v project_data) v)
      = tabs_built (build_tabs (full_toc s2 v project_data) v)"
    using same_but_toc_build [of "full_toc s1 v project_data" "full_toc s2 v project_data" v]
    by (simp add: same_but_toc_def)
  then show ?thesis
    by (simp add: accepted_sections_def assemble_tabs Let_def v_def [symmetric]
        overview_tab_def fallback_tab_def)
qed

text \<open>
  Claim C2, as the code has it.  For fixed agent results and fixed project data,
  two invocations of the assembly give the same ordered list of sections: the same
  titles, section numbers and agents, and the same accepted sections.  The text of
  the document holds the time of the invocation, in the line \<open>**Generated**\<close> of
  the table of contents: when a result is valid, the texts of two invocations are
  equal exactly when the two read the same time from the clock; when no result is
  valid, the document is the fallback document, which holds no time.
\<close>

theorem assembly_deterministic_up_to_clock:
  "map tab_title (tabs (assemble_final_documentation s1 e project_data))
     = map tab_title (tabs (assemble_final_documentation s2 e project_data))
   \<and> map section_number (tabs (assemble_final_documentation s1 e project_data))
     = map section_number (tabs (assemble_final_documentation s2 e project_data))
   \<and> map tab_agent (tabs (assemble_final_documentation s1 e project_data))
     = map tab_agent (tabs (assemble_final_documentation s2 e project_data))
   \<and> accepted_sections (assemble_final_documentation s1 e project_data)
     = accepted_sections (assemble_final_documentation s2 e project_data)
   \<and> (validate_results e \<noteq> [] \<longrightarrow>
        (content (assemble_final_documentation s1 e project_data)
           = content (assemble_final_documentation s2 e project_data) \<longleftrightarrow> s1 = s2))
   \<and> (validate_results e = [] \<longrightarrow>
        assemble_final_documentation s1 e project_data
          = assemble_final_documentation s2 e project_data)"
  using tabs_independent_of_stamp [of s1 e project_data s2] content_equal_iff [of e s1 project_data s2]
  by (simp add: assemble_final_documentation_def)

section \<open>A run with two valid results\<close>

text \<open>Two contents of one hundred one-letter lines each, and their fingerprints.\<close>

definition section_body :: "char \<Rightarrow> string" where
  "section_body c = c # concat (replicate 99 [CHR 0x0A, c])"

definition spaced :: "char \<Rightarrow> string" where
  "spaced c = c # concat (replicate 99 [CHR 0x20, c])"

lemma normalized_a:
  "str_join '' '' (str_split (str_lower (cleaned_content (section_body (CHR ''a'')))))
     = spaced (CHR ''a'')"
  by code_simp

lemma normalized_b:
  "str_join '' '' (str_split (str_lower (cleaned_content (section_body (CHR ''b'')))))
     = spaced (CHR ''b'')"
  by code_simp

lemma concat_map_concat_replicate:
  "concat (map g (concat (replicate n s))) = concat (replicate n (concat (map g s)))"
  by (induction n) simp_all

lemma replicate_99_pairs:
  "concat (replicate 99 [x, y]) =
     [x, y, x, y, x, y, x, y, x, y, x, y, x, y, x, y,
      x, y, x, y, x, y, x, y, x, y, x, y, x, y, x, y,
      x, y, x, y, x, y, x, y, x, y, x, y, x, y, x, y,
      x, y, x, y, x, y, x, y, x, y, x, y, x, y, x, y,
      x, y, x, y, x, y, x, y, x, y, x, y, x, y, x, y,
      x, y, x, y, x, y, x, y, x, y, x, y, x, y, x, y,
      x, y, x, y, x, y, x, y, x, y, x, y, x, y, x, y,
      x, y, x, y, x, y, x, y, x, y, x, y, x, y, x, y,
      x, y, x, y, x, y, x, y, x, y, x, y, x, y, x, y,
      x, y, x, y, x, y, x, y, x, y, x, y, x, y, x, y,
      x, y, x, y, x, y, x, y, x, y, x, y, x, y, x, y,
      x, y, x, y, x, y, x, y, x, y, x, y, x, y, x, y,
      x, y, x, y, x, y]"
  by (simp add: numeral_eq_Suc)

lemma replicate_48:
  "replicate 48 x =
     [x, x, x, x, x, x, x, x, x, x, x, x, x, x, x, x,
      x, x, x, x, x, x, x, x, x, x, x, x, x, x, x, x,
      x, x, x, x, x, x, x, x, x, x, x, x, x, x, x, x]"
  by (simp add: numeral_eq_Suc)

lemma length_bytes_199: "le_bytes 8 1592 = [56, 6, 0, 0, 0, 0, 0, 0]"
  by (simp add: le_bytes_def upt_rec)

lemma encoded_a: "utf8_encode (spaced (CHR ''a'')) = 97 # concat (replicate 99 [32, 97])"
  by (simp add: utf8_encode_def spaced_def concat_map_concat_replicate)

lemma padded_a:
  "md5_pad (utf8_encode (spaced (CHR ''a''))) =
     [97, 32, 97, 32, 97, 32, 97, 32, 97, 32, 97, 32, 97, 32, 97, 32,
      97, 32, 97, 32, 97, 32, 97, 32, 97, 32, 97, 32, 97, 32, 97, 32,
      97, 32, 97, 32, 97, 32, 97, 32, 97, 32, 97, 32, 97, 32, 97, 32,
      97, 32, 97, 32, 97, 32, 97, 32, 97, 32, 97, 32, 97, 32, 97, 32,
      97, 32, 97, 32, 97, 32, 97, 32, 97, 32, 97, 32, 97, 32, 97, 32,
      97, 32, 97, 32, 97, 32, 97, 32, 97, 32, 97, 32, 97, 32, 97, 32,
      97, 32, 97, 32, 97, 32, 97, 32, 97, 32, 97, 32, 97, 32, 97, 32,
      97, 32, 97, 32, 97, 32, 97, 32, 97, 32, 97, 32, 97, 32, 97, 32,
      97, 32, 97, 32, 97, 32, 97, 32, 97, 32, 97, 32, 97, 32, 97, 32,
      97, 32, 97, 32, 97, 32, 97, 32, 97, 32, 97, 32, 97, 32, 97, 32,
      97, 32, 97, 32, 97, 32, 97, 32, 97, 32, 97, 32, 97, 32, 97, 32,
      97, 32, 97, 32, 97, 32, 97, 32, 97, 32, 97, 32, 97, 32, 97, 32,
      97, 32, 97, 32, 97, 32, 97, 128, 0, 0, 0, 0, 0, 0, 0, 0,
      0, 0, 0, 0, 0, 0, 0, 0, 0, 0, 0, 0, 0, 0, 0, 0,
      0, 0, 0, 0, 0, 0, 0, 0, 0, 0, 0, 0, 0, 0, 0, 0,
      0, 0, 0, 0, 0, 0, 0, 0, 56, 6, 0, 0, 0, 0, 0, 0]"
proof -
  have "length (utf8_encode (spaced (CHR ''a''))) = 199"
    by (simp add: encoded_a length_concat sum_list_replicate)
  then show ?thesis
    unfolding md5_pad_def
    by (simp add: encoded_a replicate_99_pairs replicate_48 length_bytes_199)
qed

lemma blocks_a:
  "chunks16 (le_words (md5_pad (utf8_encode (spaced (CHR ''a''))))) =
     [[0x20612061, 0x20612061, 0x20612061, 0x20612061, 0x20612061, 0x20612061, 0x20612061, 0x20612061, 0x20612061, 0x20612061, 0x20612061, 0x20612061, 0x20612061, 0x20612061, 0x20612061, 0x20612061],
      [0x20612061, 0x20612061, 0x20612061, 0x20612061, 0x20612061, 0x20612061, 0x20612061, 0x20612061, 0x20612061, 0x20612061, 0x20612061, 0x20612061, 0x20612061, 0x20612061, 0x20612061, 0x20612061],
      [0x20612061, 0x20612061, 0x20612061, 0x20612061, 0x20612061, 0x20612061, 0x20612061, 0x20612061, 0x20612061, 0x20612061, 0x20612061, 0x20612061, 0x20612061, 0x20612061, 0x20612061, 0x20612061],
      [0x20612061, 0x80612061, 0x00000000, 0x00000000, 0x00000000, 0x00000000, 0x00000000, 0x00000000, 0x00000000, 0x00000000, 0x00000000, 0x00000000, 0x00000000, 0x00000000, 0x00000638, 0x00000000]]"
  unfolding padded_a by simp

lemma round1_a_1:
  "foldl (md5_step md5_F
      [0x20612061, 0x20612061, 0x20612061, 0x20612061, 0x20612061, 0x20612061, 0x20612061, 0x20612061, 0x20612061, 0x20612061, 0x20612061, 0x20612061, 0x20612061, 0x20612061, 0x20612061, 0x20612061])
    (0x67452301, 0xefcdab89, 0x98badcfe, 0x10325476) md5_round1
   = (0xed3486d0, 0xd7a4056a, 0x852666cc, 0x81583ae2)"
  by (simp add: md5_round1_def rotl32_def md5_F_def)

lemma round2_a_1:
  "foldl (md5_step md5_G
      [0x20612061, 0x20612061, 0x20612061, 0x20612061, 0x20612061, 0x20612061, 0x20612061, 0x20612061, 0x20612061, 0x20612061, 0x20612061, 0x20612061, 0x20612061, 0x20612061, 0x20612061, 0x20612061])
    (0xed3486d0, 0xd7a4056a, 0x852666cc, 0x81583ae2) md5_round2
   = (0x5c60dafb, 0xeaf7def8, 0x13e2e79f, 0x2efc0725)"
  by (simp add: md5_round2_def rotl32_def md5_G_def)

lemma round3_a_1:
  "foldl (md5_step md5_H
      [0x20612061, 0x20612061, 0x20612061, 0x20612061, 0x20612061, 0x20612061, 0x20612061, 0x20612061, 0x20612061, 0x20612061, 0x20612061, 0x20612061, 0x20612061, 0x20612061, 0x20612061, 0x20612061])
    (0x5c60dafb, 0xeaf7def8, 0x13e2e79f, 0x2efc0725) md5_round3
   = (0x583848c7, 0xee93e8df, 0x5fd5755c, 0xf15a0244)"
  by (simp add: md5_round3_def rotl32_def md5_H_def)

lemma round4_a_1:
  "foldl (md5_step md5_I
      [0x20612061, 0x20612061, 0x20612061, 0x20612061, 0x20612061, 0x20612061, 0x20612061, 0x20612061, 0x20612061, 0x20612061, 0x20612061, 0x20612061, 0x20612061, 0x20612061, 0x20612061, 0x20612061])
    (0x583848c7, 0xee93e8df, 0x5fd5755c, 0xf15a0244) md5_round4
   = (0x6bf19a2d, 0x89529167, 0x0ac3eafc, 0xa29510d6)"
  by (simp add: md5_round4_def rotl32_def md5_I_def)

lemma block_a_1:
  "md5_block (0x67452301, 0xefcdab89, 0x98badcfe, 0x10325476)
      [0x20612061, 0x20612061, 0x20612061, 0x20612061, 0x20612061, 0x20612061, 0x20612061, 0x20612061, 0x20612061, 0x20612061, 0x20612061, 0x20612061, 0x20612061, 0x20612061, 0x20612061, 0x20612061]
   = (0xd336bd2e, 0x79203cf0, 0xa37ec7fa, 0xb2c7654c)"
  by (simp add: md5_block_def md5_rounds_def round1_a_1 round2_a_1 round3_a_1 round4_a_1)

lemma round1_a_2:
  "foldl (md5_step md5_F
      [0x20612061, 0x20612061, 0x20612061, 0x20612061, 0x20612061, 0x20612061, 0x20612061, 0x20612061, 0x20612061, 0x20612061, 0x20612061, 0x20612061, 0x20612061, 0x20612061, 0x20612061, 0x20612061])
    (0xd336bd2e, 0x79203cf0, 0xa37ec7fa, 0xb2c7654c) md5_round1
   = (0xdefa13f5, 0x709732f8, 0xb3549d80, 0x44d4e206)"
  by (simp add: md5_round1_def rotl32_def md5_F_def)

lemma round2_a_2:
  "foldl (md5_step md5_G
      [0x20612061, 0x20612061, 0x20612061, 0x20612061, 0x20612061, 0x20612061, 0x20612061, 0x20612061, 0x20612061, 0x20612061, 0x20612061, 0x20612061, 0x20612061, 0x20612061, 0x20612061, 0x20612061])
    (0xdefa13f5, 0x709732f8, 0xb3549d80, 0x44d4e206) md5_round2
   = (0xcf8d6628, 0x8bfcb1dc, 0x3ab22d2d, 0x2792a192)"
  by (simp add: md5_round2_def rotl32_def md5_G_def)

lemma round3_a_2:
  "foldl (md5_step md5_H
      [0x20612061, 0x20612061, 0x20612061, 0x20612061, 0x20612061, 0x20612061, 0x20612061, 0x20612061, 0x20612061, 0x20612061, 0x20612061, 0x20612061, 0x20612061, 0x20612061, 0x20612061, 0x20612061])
    (0xcf8d6628, 0x8bfcb1dc, 0x3ab22d2d, 0x2792a192) md5_round3
   = (0x76e5694b, 0x763356ff, 0x4e3ab869, 0xdaa40b4a)"
  by (simp add: md5_round3_def rotl32_def md5_H_def)

lemma round4_a_2:
  "foldl (md5_step md5_I
      [0x20612061, 0x20612061, 0x20612061, 0x20612061, 0x20612061, 0x20612061, 0x20612061, 0x20612061, 0x20612061, 0x20612061, 0x20612061, 0x20612061, 0x20612061, 0x20612061, 0x20612061, 0x20612061])
    (0x76e5694b, 0x763356ff, 0x4e3ab869, 0xdaa40b4a) md5_round4
   = (0x74ad7dff, 0x253a16e5, 0xe0790ef5, 0x96b58cec)"
  by (simp add: md5_round4_def rotl32_def md5_I_def)

lemma block_a_2:
  "md5_block (0xd336bd2e, 0x79203cf0, 0xa37ec7fa, 0xb2c7654c)
      [0x20612061, 0x20612061, 0x20612061, 0x20612061, 0x20612061, 0x20612061, 0x20612061, 0x20612061, 0x20612061, 0x20612061, 0x20612061, 0x20612061, 0x20612061, 0x20612061, 0x20612061, 0x20612061]
   = (0x47e43b2d, 0x9e5a53d5, 0x83f7d6ef, 0x497cf238)"
  by (simp add: md5_block_def md5_rounds_def round1_a_2 round2_a_2 round3_a_2 round4_a_2)

lemma round1_a_3:
  "foldl (md5_step md5_F
      [0x20612061, 0x20612061, 0x20612061, 0x20612061, 0x20612061, 0x20612061, 0x20612061, 0x20612061, 0x20612061, 0x20612061, 0x20612061, 0x20612061, 0x20612061, 0x20612061, 0x20612061, 0x20612061])
    (0x47e43b2d, 0x9e5a53d5, 0x83f7d6ef, 0x497cf238) md5_round1
   = (0xb3d196d3, 0x582f4be0, 0x1a40b31c, 0x17b15fb4)"
  by (simp add: md5_round1_def rotl32_def md5_F_def)

lemma round2_a_3:
  "foldl (md5_step md5_G
      [0x20612061, 0x20612061, 0x20612061, 0x20612061, 0x20612061, 0x20612061, 0x20612061, 0x20612061, 0x20612061, 0x20612061, 0x20612061, 0x20612061, 0x20612061, 0x20612061, 0x20612061, 0x20612061])
    (0xb3d196d3, 0x582f4be0, 0x1a40b31c, 0x17b15fb4) md5_round2
   = (0xcba5524c, 0xb5f3016e, 0x935f5714, 0x99590190)"
  by (simp add: md5_round2_def rotl32_def md5_G_def)

lemma round3_a_3:
  "foldl (md5_step md5_H
      [0x20612061, 0x20612061, 0x20612061, 0x20612061, 0x20612061, 0x20612061, 0x20612061, 0x20612061, 0x20612061, 0x20612061, 0x20612061, 0x20612061, 0x20612061, 0x20612061, 0x20612061, 0x20612061])
    (0xcba5524c, 0xb5f3016e, 0x935f5714, 0x99590190) md5_round3
   = (0xb4d9b544, 0xf5e3b61d, 0xb3c06450, 0xacc5dbed)"
  by (simp add: md5_round3_def rotl32_def md5_H_def)

lemma round4_a_3:
  "foldl (md5_step md5_I
      [0x20612061, 0x20612061, 0x20612061, 0x20612061, 0x20612061, 0x20612061, 0x20612061, 0x20612061, 0x20612061, 0x20612061, 0x20612061, 0x20612061, 0x20612061, 0x20612061, 0x20612061, 0x20612061])
    (0xb4d9b544, 0xf5e3b61d, 0xb3c06450, 0xacc5dbed) md5_round4
   = (0x061f3b95, 0xad6bc3c5, 0x9db84f45, 0x89f8b2ab)"
  by (simp add: md5_round4_def rotl32_def md5_I_def)

lemma block_a_3:
  "md5_block (0x47e43b2d, 0x9e5a53d5, 0x83f7d6ef, 0x497cf238)
      [0x20612061, 0x20612061, 0x20612061, 0x20612061, 0x20612061, 0x20612061, 0x20612061, 0x20612061, 0x20612061, 0x20612061, 0x20612061, 0x20612061, 0x20612061, 0x20612061, 0x20612061, 0x20612061]
   = (0x4e0376c2, 0x4bc6179a, 0x21b02634, 0xd375a4e3)"
  by (simp add: md5_block_def md5_rounds_def round1_a_3 round2_a_3 round3_a_3 round4_a_3)

lemma round1_a_4:
  "foldl (md5_step md5_F
      [0x20612061, 0x80612061, 0x00000000, 0x00000000, 0x00000000, 0x00000000, 0x00000000, 0x00000000, 0x00000000, 0x00000000, 0x00000000, 0x00000000, 0x00000000, 0x00000000, 0x00000638, 0x00000000])
    (0x4e0376c2, 0x4bc6179a, 0x21b02634, 0xd375a4e3) md5_round1
   = (0xaecc0c5e, 0x857b4306, 0x29cc9ac5, 0xc010f93d)"
  by (simp add: md5_round1_def rotl32_def md5_F_def)

lemma round2_a_4:
  "foldl (md5_step md5_G
      [0x20612061, 0x80612061, 0x00000000, 0x00000000, 0x00000000, 0x00000000, 0x00000000, 0x00000000, 0x00000000, 0x00000000, 0x00000000, 0x00000000, 0x00000000, 0x00000000, 0x00000638, 0x00000000])
    (0xaecc0c5e, 0x857b4306, 0x29cc9ac5, 0xc010f93d) md5_round2
   = (0xe599fdc1, 0xcbb360ca, 0xe2ebe90f, 0x92156ea9)"
  by (simp add: md5_round2_def rotl32_def md5_G_def)

lemma round3_a_4:
  "foldl (md5_step md5_H
      [0x20612061, 0x80612061, 0x00000000, 0x00000000, 0x00000000, 0x00000000, 0x00000000, 0x00000000, 0x00000000, 0x00000000, 0x00000000, 0x00000000, 0x00000000, 0x00000000, 0x00000638, 0x00000000])
    (0xe599fdc1, 0xcbb360ca, 0xe2ebe90f, 0x92156ea9) md5_round3
   = (0x9816568a, 0x5a22ced3, 0x78c4d121, 0x8018a1fe)"
  by (simp add: md5_round3_def rotl32_def md5_H_def)

lemma round4_a_4:
  "foldl (md5_step md5_I
      [0x20612061, 0x80612061, 0x00000000, 0x00000000, 0x00000000, 0x00000000, 0x00000000, 0x00000000, 0x00000000, 0x00000000, 0x00000000, 0x00000000, 0x00000000, 0x00000000, 0x00000638, 0x00000000])
    (0x9816568a, 0x5a22ced3, 0x78c4d121, 0x8018a1fe) md5_round4
   = (0x0c74f078, 0x6d2f973e, 0xa3463643, 0x46d68495)"
  by (simp add: md5_round4_def rotl32_def md5_I_def)

lemma block_a_4:
  "md5_block (0x4e0376c2, 0x4bc6179a, 0x21b02634, 0xd375a4e3)
      [0x20612061, 0x80612061, 0x00000000, 0x00000000, 0x00000000, 0x00000000, 0x00000000, 0x00000000, 0x00000000, 0x00000000, 0x00000000, 0x00000000, 0x00000000, 0x00000000, 0x00000638, 0x00000000]
   = (0x5a78673a, 0xb8f5aed8, 0xc4f65c77, 0x1a4c2978)"
  by (simp add: md5_block_def md5_rounds_def round1_a_4 round2_a_4 round3_a_4 round4_a_4)

lemma digest_a: "md5_hexdigest (spaced (CHR ''a'')) = ''3a67785ad8aef5b8775cf6c478294c1a''"
proof -
  have "foldl md5_block md5_init (chunks16 (le_words (md5_pad (utf8_encode (spaced (CHR ''a''))))))
      = (0x5a78673a, 0xb8f5aed8, 0xc4f65c77, 0x1a4c2978)"
    unfolding blocks_a by (simp add: md5_init_def block_a_1 block_a_2 block_a_3 block_a_4)
  moreover have "hexdigest (md5_output (0x5a78673a, 0xb8f5aed8, 0xc4f65c77, 0x1a4c2978))
      = ''3a67785ad8aef5b8775cf6c478294c1a''"
    by (simp add: hexdigest_def hex_digit_def le_bytes_def upt_rec)
  ultimately show ?thesis
    by (simp add: md5_hexdigest_def md5_digest_def)
qed

lemma encoded_b: "utf8_encode (spaced (CHR ''b'')) = 98 # concat (replicate 99 [32, 98])"
  by (simp add: utf8_encode_def spaced_def concat_map_concat_replicate)

lemma padded_b:
  "md5_pad (utf8_encode (spaced (CHR ''b''))) =
     [98, 32, 98, 32, 98, 32, 98, 32, 98, 32, 98, 32, 98, 32, 98, 32,
      98, 32, 98, 32, 98, 32, 98, 32, 98, 32, 98, 32, 98, 32, 98, 32,
      98, 32, 98, 32, 98, 32, 98, 32, 98, 32, 98, 32, 98, 32, 98, 32,
      98, 32, 98, 32, 98, 32, 98, 32, 98, 32, 98, 32, 98, 32, 98, 32,
      98, 32, 98, 32, 98, 32, 98, 32, 98, 32, 98, 32, 98, 32, 98, 32,
      98, 32, 98, 32, 98, 32, 98, 32, 98, 32, 98, 32, 98, 32, 98, 32,
      98, 32, 98, 32, 98, 32, 98, 32, 98, 32, 98, 32, 98, 32, 98, 32,
      98, 32, 98, 32, 98, 32, 98, 32, 98, 32, 98, 32, 98, 32, 98, 32,
      98, 32, 98, 32, 98, 32, 98, 32, 98, 32, 98, 32, 98, 32, 98, 32,
      98, 32, 98, 32, 98, 32, 98, 32, 98, 32, 98, 32, 98, 32, 98, 32,
      98, 32, 98, 32, 98, 32, 98, 32, 98, 32, 98, 32, 98, 32, 98, 32,
      98, 32, 98, 32, 98, 32, 98, 32, 98, 32, 98, 32, 98, 32, 98, 32,
      98, 32, 98, 32, 98, 32, 98, 128, 0, 0, 0, 0, 0, 0, 0, 0,
      0, 0, 0, 0, 0, 0, 0, 0, 0, 0, 0, 0, 0, 0, 0, 0,
      0, 0, 0, 0, 0, 0, 0, 0, 0, 0, 0, 0, 0, 0, 0, 0,
      0, 0, 0, 0, 0, 0, 0, 0, 56, 6, 0, 0, 0, 0, 0, 0]"
proof -
  have "length (utf8_encode (spaced (CHR ''b''))) = 199"
    by (simp add: encoded_b length_concat sum_list_replicate)
  then show ?thesis
    unfolding md5_pad_def
    by (simp add: encoded_b replicate_99_pairs replicate_48 length_bytes_199)
qed

lemma blocks_b:
  "chunks16 (le_words (md5_pad (utf8_encode (spaced (CHR ''b''))))) =
     [[0x20622062, 0x20622062, 0x20622062, 0x20622062, 0x20622062, 0x20622062, 0x20622062, 0x20622062, 0x20622062, 0x20622062, 0x20622062, 0x20622062, 0x20622062, 0x20622062, 0x20622062, 0x20622062],
      [0x20622062, 0x20622062, 0x20622062, 0x20622062, 0x20622062, 0x20622062, 0x20622062, 0x20622062, 0x20622062, 0x20622062, 0x20622062, 0x20622062, 0x20622062, 0x20622062, 0x20622062, 0x20622062],
      [0x20622062, 0x20622062, 0x20622062, 0x20622062, 0x20622062, 0x20622062, 0x20622062, 0x20622062, 0x20622062, 0x20622062, 0x20622062, 0x20622062, 0x20622062, 0x20622062, 0x20622062, 0x20622062],
      [0x20622062, 0x80622062, 0x00000000, 0x00000000, 0x00000000, 0x00000000, 0x00000000, 0x00000000, 0x00000000, 0x00000000, 0x00000000, 0x00000000, 0x00000000, 0x00000000, 0x00000638, 0x00000000]]"
  unfolding padded_b by simp

lemma round1_b_1:
  "foldl (md5_step md5_F
      [0x20622062, 0x20622062, 0x20622062, 0x20622062, 0x20622062, 0x20622062, 0x20622062, 0x20622062, 0x20622062, 0x20622062, 0x20622062, 0x20622062, 0x20622062, 0x20622062, 0x20622062, 0x20622062])
    (0x67452301, 0xefcdab89, 0x98badcfe, 0x10325476) md5_round1
   = (0x020daa18, 0x9abcf696, 0xc2600990, 0xf8a862d8)"
  by (simp add: md5_round1_def rotl32_def md5_F_def)

lemma round2_b_1:
  "foldl (md5_step md5_G
      [0x20622062, 0x20622062, 0x20622062, 0x20622062, 0x20622062, 0x20622062, 0x20622062, 0x20622062, 0x20622062, 0x20622062, 0x20622062, 0x20622062, 0x20622062, 0x20622062, 0x20622062, 0x20622062])
    (0x020daa18, 0x9abcf696, 0xc2600990, 0xf8a862d8) md5_round2
   = (0xb1be4c85, 0x3dda1b08, 0x3fce4875, 0xe8648f99)"
  by (simp add: md5_round2_def rotl32_def md5_G_def)

lemma round3_b_1:
  "foldl (md5_step md5_H
      [0x20622062, 0x20622062, 0x20622062, 0x20622062, 0x20622062, 0x20622062, 0x20622062, 0x20622062, 0x20622062, 0x20622062, 0x20622062, 0x20622062, 0x20622062, 0x20622062, 0x20622062, 0x20622062])
    (0xb1be4c85, 0x3dda1b08, 0x3fce4875, 0xe8648f99) md5_round3
   = (0x1992e4f8, 0x98c34a1c, 0xf343ef42, 0x0cafebb9)"
  by (simp add: md5_round3_def rotl32_def md5_H_def)

lemma round4_b_1:
  "foldl (md5_step md5_I
      [0x20622062, 0x20622062, 0x20622062, 0x20622062, 0x20622062, 0x20622062, 0x20622062, 0x20622062, 0x20622062, 0x20622062, 0x20622062, 0x20622062, 0x20622062, 0x20622062, 0x20622062, 0x20622062])
    (0x1992e4f8, 0x98c34a1c, 0xf343ef42, 0x0cafebb9) md5_round4
   = (0x091a3c1e, 0x937aaf5d, 0xa4dfa3cf, 0x34eb5bde)"
  by (simp add: md5_round4_def rotl32_def md5_I_def)

lemma block_b_1:
  "md5_block (0x67452301, 0xefcdab89, 0x98badcfe, 0x10325476)
      [0x20622062, 0x20622062, 0x20622062, 0x20622062, 0x20622062, 0x20622062, 0x20622062, 0x20622062, 0x20622062, 0x20622062, 0x20622062, 0x20622062, 0x20622062, 0x20622062, 0x20622062, 0x20622062]
   = (0x705f5f1f, 0x83485ae6, 0x3d9a80cd, 0x451db054)"
  by (simp add: md5_block_def md5_rounds_def round1_b_1 round2_b_1 round3_b_1 round4_b_1)

lemma round1_b_2:
  "foldl (md5_step md5_F
      [0x20622062, 0x20622062, 0x20622062, 0x20622062, 0x20622062, 0x20622062, 0x20622062, 0x20622062, 0x20622062, 0x20622062, 0x20622062, 0x20622062, 0x20622062, 0x20622062, 0x20622062, 0x20622062])
    (0x705f5f1f, 0x83485ae6, 0x3d9a80cd, 0x451db054) md5_round1
   = (0x315aec95, 0x48843b42, 0x29426c60, 0x1b4ee27a)"
  by (simp add: md5_round1_def rotl32_def md5_F_def)

lemma round2_b_2:
  "foldl (md5_step md5_G
      [0x20622062, 0x20622062, 0x20622062, 0x20622062, 0x20622062, 0x20622062, 0x20622062, 0x20622062, 0x20622062, 0x20622062, 0x20622062, 0x20622062, 0x20622062, 0x20622062, 0x20622062, 0x20622062])
    (0x315aec95, 0x48843b42, 0x29426c60, 0x1b4ee27a) md5_round2
   = (0x30047140, 0xc0d21f0e, 0x72314a92, 0x8880a0f7)"
  by (simp add: md5_round2_def rotl32_def md5_G_def)

lemma round3_b_2:
  "foldl (md5_step md5_H
      [0x20622062, 0x20622062, 0x20622062, 0x20622062, 0x20622062, 0x20622062, 0x20622062, 0x20622062, 0x20622062, 0x20622062, 0x20622062, 0x20622062, 0x20622062, 0x20622062, 0x20622062, 0x20622062])
    (0x30047140, 0xc0d21f0e, 0x72314a92, 0x8880a0f7) md5_round3
   = (0x5875e971, 0x7ffc6d4d, 0xc8cfd56a, 0x30c1cc75)"
  by (simp add: md5_round3_def rotl32_def md5_H_def)

lemma round4_b_2:
  "foldl (md5_step md5_I
      [0x20622062, 0x20622062, 0x20622062, 0x20622062, 0x20622062, 0x20622062, 0x20622062, 0x20622062, 0x20622062, 0x20622062, 0x20622062, 0x20622062, 0x20622062, 0x20622062, 0x20622062, 0x20622062])
    (0x5875e971, 0x7ffc6d4d, 0xc8cfd56a, 0x30c1cc75) md5_round4
   = (0xc631f716, 0xb1e1e1f6, 0x76901602, 0x656fb264)"
  by (simp add: md5_round4_def rotl32_def md5_I_def)

lemma block_b_2:
  "md5_block (0x705f5f1f, 0x83485ae6, 0x3d9a80cd, 0x451db054)
      [0x20622062, 0x20622062, 0x20622062, 0x20622062, 0x20622062, 0x20622062, 0x20622062, 0x20622062, 0x20622062, 0x20622062, 0x20622062, 0x20622062, 0x20622062, 0x20622062, 0x20622062, 0x20622062]
   = (0x36915635, 0x352a3cdc, 0xb42a96cf, 0xaa8d62b8)"
  by (simp add: md5_block_def md5_rounds_def round1_b_2 round2_b_2 round3_b_2 round4_b_2)

lemma round1_b_3:
  "foldl (md5_step md5_F
      [0x20622062, 0x20622062, 0x20622062, 0x20622062, 0x20622062, 0x20622062, 0x20622062, 0x20622062, 0x20622062, 0x20622062, 0x20622062, 0x20622062, 0x20622062, 0x20622062, 0x20622062, 0x20622062])
    (0x36915635, 0x352a3cdc, 0xb42a96cf, 0xaa8d62b8) md5_round1
   = (0x5a2d5605, 0xe68ceddd, 0x36e463d7, 0xd304c243)"
  by (simp add: md5_round1_def rotl32_def md5_F_def)

lemma round2_b_3:
  "foldl (md5_step md5_G
      [0x20622062, 0x20622062, 0x20622062, 0x20622062, 0x20622062, 0x20622062, 0x20622062, 0x20622062, 0x20622062, 0x20622062, 0x20622062, 0x20622062, 0x20622062, 0x20622062, 0x20622062, 0x20622062])
    (0x5a2d5605, 0xe68ceddd, 0x36e463d7, 0xd304c243) md5_round2
   = (0xd438803e, 0x6142e8bd, 0xf95700af, 0x90c87ef3)"
  by (simp add: md5_round2_def rotl32_def md5_G_def)

lemma round3_b_3:
  "foldl (md5_step md5_H
      [0x20622062, 0x20622062, 0x20622062, 0x20622062, 0x20622062, 0x20622062, 0x20622062, 0x20622062, 0x20622062, 0x20622062, 0x20622062, 0x20622062, 0x20622062, 0x20622062, 0x20622062, 0x20622062])
    (0xd438803e, 0x6142e8bd, 0xf95700af, 0x90c87ef3) md5_round3
   = (0x284467b0, 0xf0249060, 0x0733d0e4, 0x3121f49b)"
  by (simp add: md5_round3_def rotl32_def md5_H_def)

lemma round4_b_3:
  "foldl (md5_step md5_I
      [0x20622062, 0x20622062, 0x20622062, 0x20622062, 0x20622062, 0x20622062, 0x20622062, 0x20622062, 0x20622062, 0x20622062, 0x20622062, 0x20622062, 0x20622062, 0x20622062, 0x20622062, 0x20622062])
    (0x284467b0, 0xf0249060, 0x0733d0e4, 0x3121f49b) md5_round4
   = (0x4cfec7bf, 0xf878e9fa, 0xfcfbabda, 0xa68963f6)"
  by (simp add: md5_round4_def rotl32_def md5_I_def)

lemma block_b_3:
  "md5_block (0x36915635, 0x352a3cdc, 0xb42a96cf, 0xaa8d62b8)
      [0x20622062, 0x20622062, 0x20622062, 0x20622062, 0x20622062, 0x20622062, 0x20622062, 0x20622062, 0x20622062, 0x20622062, 0x20622062, 0x20622062, 0x20622062, 0x20622062, 0x20622062, 0x20622062]
   = (0x83901df4, 0x2da326d6, 0xb12642a9, 0x5116c6ae)"
  by (simp add: md5_block_def md5_rounds_def round1_b_3 round2_b_3 round3_b_3 round4_b_3)

lemma round1_b_4:
  "foldl (md5_step md5_F
      [0x20622062, 0x80622062, 0x00000000, 0x00000000, 0x00000000, 0x00000000, 0x00000000, 0x00000000, 0x00000000, 0x00000000, 0x00000000, 0x00000000, 0x00000000, 0x00000000, 0x00000638, 0x00000000])
    (0x83901df4, 0x2da326d6, 0xb12642a9, 0x5116c6ae) md5_round1
   = (0xf321d989, 0x4595b0e7, 0x534bf894, 0x0b1443ef)"
  by (simp add: md5_round1_def rotl32_def md5_F_def)

lemma round2_b_4:
  "foldl (md5_step md5_G
      [0x20622062, 0x80622062, 0x00000000, 0x00000000, 0x00000000, 0x00000000, 0x00000000, 0x00000000, 0x00000000, 0x00000000, 0x00000000, 0x00000000, 0x00000000, 0x00000000, 0x00000638, 0x00000000])
    (0xf321d989, 0x4595b0e7, 0x534bf894, 0x0b1443ef) md5_round2
   = (0xeb590f7f, 0xec6c00d8, 0x45d4575b, 0x3a9c92da)"
  by (simp add: md5_round2_def rotl32_def md5_G_def)

lemma round3_b_4:
  "foldl (md5_step md5_H
      [0x20622062, 0x80622062, 0x00000000, 0x00000000, 0x00000000, 0x00000000, 0x00000000, 0x00000000, 0x00000000, 0x00000000, 0x00000000, 0x00000000, 0x00000000, 0x00000000, 0x00000638, 0x00000000])
    (0xeb590f7f, 0xec6c00d8, 0x45d4575b, 0x3a9c92da) md5_round3
   = (0x79c1b2c6, 0x8cc2acee, 0xc164997d, 0x190841be)"
  by (simp add: md5_round3_def rotl32_def md5_H_def)

lemma round4_b_4:
  "foldl (md5_step md5_I
      [0x20622062, 0x80622062, 0x00000000, 0x00000000, 0x00000000, 0x00000000, 0x00000000, 0x00000000, 0x00000000, 0x00000000, 0x00000000, 0x00000000, 0x00000000, 0x00000000, 0x00000638, 0x00000000])
    (0x79c1b2c6, 0x8cc2acee, 0xc164997d, 0x190841be) md5_round4
   = (0xc051c168, 0xa7cce9a8, 0x39bdc0d6, 0x14abcdc6)"
  by (simp add: md5_round4_def rotl32_def md5_I_def)

lemma block_b_4:
  "md5_block (0x83901df4, 0x2da326d6, 0xb12642a9, 0x5116c6ae)
      [0x20622062, 0x80622062, 0x00000000, 0x00000000, 0x00000000, 0x00000000, 0x00000000, 0x00000000, 0x00000000, 0x00000000, 0x00000000, 0x00000000, 0x00000000, 0x00000000, 0x00000638, 0x00000000]
   = (0x43e1df5c, 0xd570107e, 0xeae4037f, 0x65c29474)"
  by (simp add: md5_block_def md5_rounds_def round1_b_4 round2_b_4 round3_b_4 round4_b_4)

lemma digest_b: "md5_hexdigest (spaced (CHR ''b'')) = ''5cdfe1437e1070d57f03e4ea7494c265''"
proof -
  have "foldl md5_block md5_init (chunks16 (le_words (md5_pad (utf8_encode (spaced (CHR ''b''))))))
      = (0x43e1df5c, 0xd570107e, 0xeae4037f, 0x65c29474)"
    unfolding blocks_b by (simp add: md5_init_def block_b_1 block_b_2 block_b_3 block_b_4)
  moreover have "hexdigest (md5_output (0x43e1df5c, 0xd570107e, 0xeae4037f, 0x65c29474))
      = ''5cdfe1437e1070d57f03e4ea7494c265''"
    by (simp add: hexdigest_def hex_digit_def le_bytes_def upt_rec)
  ultimately show ?thesis
    by (simp add: md5_hexdigest_def md5_digest_def)
qed

lemma fingerprint_a: "fingerprint (section_body (CHR ''a'')) = ''3a67785ad8aef5b8775cf6c478294c1a''"
  by (simp add: fingerprint_def Let_def normalized_a digest_a)

lemma fingerprint_b: "fingerprint (section_body (CHR ''b'')) = ''5cdfe1437e1070d57f03e4ea7494c265''"
  by (simp add: fingerprint_def Let_def normalized_b digest_b)


text \<open>The fingerprint of a third, short content.\<close>

lemma replicate_52:
  "replicate 52 x =
     [x, x, x, x, x, x, x, x, x, x, x, x, x,
      x, x, x, x, x, x, x, x, x, x, x, x, x,
      x, x, x, x, x, x, x, x, x, x, x, x, x,
      x, x, x, x, x, x, x, x, x, x, x, x, x]"
  by (simp add: numeral_eq_Suc)

lemma padded_aa:
  "md5_pad (utf8_encode ''a a'') =
     [97, 32, 97, 128, 0, 0, 0, 0, 0, 0, 0, 0, 0, 0, 0, 0,
      0, 0, 0, 0, 0, 0, 0, 0, 0, 0, 0, 0, 0, 0, 0, 0,
      0, 0, 0, 0, 0, 0, 0, 0, 0, 0, 0, 0, 0, 0, 0, 0,
      0, 0, 0, 0, 0, 0, 0, 0, 24, 0, 0, 0, 0, 0, 0, 0]"
  by (simp add: md5_pad_def utf8_encode_def replicate_52 le_bytes_def upt_rec)

lemma blocks_aa:
  "chunks16 (le_words (md5_pad (utf8_encode ''a a''))) =
     [[0x80612061, 0x00000000, 0x00000000, 0x00000000, 0x00000000, 0x00000000, 0x00000000, 0x00000000, 0x00000000, 0x00000000, 0x00000000, 0x00000000, 0x00000000, 0x00000000, 0x00000018, 0x00000000]]"
  unfolding padded_aa by simp

lemma round1_aa:
  "foldl (md5_step md5_F
      [0x80612061, 0x00000000, 0x00000000, 0x00000000, 0x00000000, 0x00000000, 0x00000000, 0x00000000, 0x00000000, 0x00000000, 0x00000000, 0x00000000, 0x00000000, 0x00000000, 0x00000018, 0x00000000])
    (0x67452301, 0xefcdab89, 0x98badcfe, 0x10325476) md5_round1
   = (0x31a57532, 0x2a29fe62, 0x461b8a78, 0xcfa31347)"
  by (simp add: md5_round1_def rotl32_def md5_F_def)

lemma round2_aa:
  "foldl (md5_step md5_G
      [0x80612061, 0x00000000, 0x00000000, 0x00000000, 0x00000000, 0x00000000, 0x00000000, 0x00000000, 0x00000000, 0x00000000, 0x00000000, 0x00000000, 0x00000000, 0x00000000, 0x00000018, 0x00000000])
    (0x31a57532, 0x2a29fe62, 0x461b8a78, 0xcfa31347) md5_round2
   = (0x958fce32, 0xf41fd2a6, 0x516afe93, 0xf424e4a6)"
  by (simp add: md5_round2_def rotl32_def md5_G_def)

lemma round3_aa:
  "foldl (md5_step md5_H
      [0x80612061, 0x00000000, 0x00000000, 0x00000000, 0x00000000, 0x00000000, 0x00000000, 0x00000000, 0x00000000, 0x00000000, 0x00000000, 0x00000000, 0x00000000, 0x00000000, 0x00000018, 0x00000000])
    (0x958fce32, 0xf41fd2a6, 0x516afe93, 0xf424e4a6) md5_round3
   = (0xd0a746f4, 0x89077aea, 0x113b2288, 0x4011e25e)"
  by (simp add: md5_round3_def rotl32_def md5_H_def)

lemma round4_aa:
  "foldl (md5_step md5_I
      [0x80612061, 0x00000000, 0x00000000, 0x00000000, 0x00000000, 0x00000000, 0x00000000, 0x00000000, 0x00000000, 0x00000000, 0x00000000, 0x00000000, 0x00000000, 0x00000000, 0x00000018, 0x00000000])
    (0xd0a746f4, 0x89077aea, 0x113b2288, 0x4011e25e) md5_round4
   = (0x52649a1a, 0x0f1d3dc4, 0x1aba8e92, 0xa075df92)"
  by (simp add: md5_round4_def rotl32_def md5_I_def)

lemma block_aa:
  "md5_block (0x67452301, 0xefcdab89, 0x98badcfe, 0x10325476)
      [0x80612061, 0x00000000, 0x00000000, 0x00000000, 0x00000000, 0x00000000, 0x00000000, 0x00000000, 0x00000000, 0x00000000, 0x00000000, 0x00000000, 0x00000000, 0x00000000, 0x00000018, 0x00000000]
   = (0xb9a9bd1b, 0xfeeae94d, 0xb3756b90, 0xb0a83408)"
  by (simp add: md5_block_def md5_rounds_def round1_aa round2_aa round3_aa round4_aa)

lemma digest_aa: "md5_hexdigest ''a a'' = ''1bbda9b94de9eafe906b75b30834a8b0''"
proof -
  have "foldl md5_block md5_init (chunks16 (le_words (md5_pad (utf8_encode ''a a''))))
      = (0xb9a9bd1b, 0xfeeae94d, 0xb3756b90, 0xb0a83408)"
    unfolding blocks_aa by (simp add: md5_init_def block_aa)
  moreover have "hexdigest (md5_output (0xb9a9bd1b, 0xfeeae94d, 0xb3756b90, 0xb0a83408))
      = ''1bbda9b94de9eafe906b75b30834a8b0''"
    by (simp add: hexdigest_def hex_digit_def le_bytes_def upt_rec)
  ultimately show ?thesis
    by (simp add: md5_hexdigest_def md5_digest_def)
qed

lemma fingerprint_aa: "fingerprint ''a a'' = ''1bbda9b94de9eafe906b75b30834a8b0''"
proof -
  have "str_join '' '' (str_split (str_lower (cleaned_content ''a a''))) = ''a a''"
    by code_simp
  then show ?thesis
    by (simp add: fingerprint_def Let_def digest_aa)
qed

text \<open>The two results, both valid, and a third one that is too short.\<close>

definition result_a :: agent_result where
  "result_a = \<lparr>res_content = section_body (CHR ''a''), res_tokens = 10\<rparr>"

definition result_b :: agent_result where
  "result_b = \<lparr>res_content = section_body (CHR ''b''), res_tokens = 20\<rparr>"

definition result_short :: agent_result where
  "result_short = \<lparr>res_content = ''Too short.'', res_tokens = 5\<rparr>"

definition three_results :: results where
  "three_results =
     [(''Code Architecture Agent'', result_a),
      (''API Integration Agent'', result_short),
      (''System Architecture Agent'', result_b)]"

definition two_results :: results where
  "two_results =
     [(''Code Architecture Agent'', result_a),
      (''System Architecture Agent'', result_b)]"

definition demo_project :: project_data where
  "demo_project = \<lparr>title = Some ''Demo'', description = None, files = []\<rparr>"

lemma valid_a: "is_valid result_a"
  by code_simp

lemma valid_b: "is_valid result_b"
  by code_simp

lemma invalid_short: "\<not> is_valid result_short"
  by code_simp

lemma short_words: "length (non_heading_words (str_strip (res_content result_short))) = 2"
  by code_simp

lemma validate_three: "validate_results three_results = two_results"
  by (simp add: validate_results_def three_results_def two_results_def valid_a valid_b
      invalid_short)

lemma strip_a: "str_strip (section_body (CHR ''a'')) = section_body (CHR ''a'')"
  by code_simp

lemma strip_b: "str_strip (section_body (CHR ''b'')) = section_body (CHR ''b'')"
  by code_simp

lemma words_a: "length (non_heading_words (section_body (CHR ''a''))) = 100"
  by code_simp

lemma words_b: "length (non_heading_words (section_body (CHR ''b''))) = 100"
  by code_simp

lemma word_set_a: "word_set (section_body (CHR ''a'')) = {''a''}"
  unfolding word_set_def by code_simp

lemma word_set_b: "word_set (section_body (CHR ''b'')) = {''b''}"
  unfolding word_set_def by code_simp

lemma word_set_aa: "word_set ''a a'' = {''a''}"
  unfolding word_set_def by code_simp

lemma title_a:
  "str_replace ''Code Architecture Agent'' '' Agent'' '' Analysis'' = ''Code Architecture Analysis''"
  by code_simp

lemma title_b:
  "str_replace ''System Architecture Agent'' '' Agent'' '' Analysis''
     = ''System Architecture Analysis''"
  by code_simp

lemma normalized_titles:
  "normalize_title ''Code Architecture Analysis'' = ''code architecture''"
  "normalize_title ''System Architecture Analysis'' = ''system architecture''"
  "normalize_title ''Glossary'' = ''glossary''"
  by code_simp+

lemma section_digits: "str_of_nat (Suc 0) = ''1''" "str_of_nat 2 = ''2''"
  by code_simp+

lemma two_results_nonempty: "two_results \<noteq> []"
  by (simp add: two_results_def)

definition tab_a :: tab where
  "tab_a = \<lparr>tab_title = ''Code Architecture Analysis'', tab_content = section_body (CHR ''a''),
            word_count = 100, tab_agent = ''Code Architecture Agent'', section_number = Some 1\<rparr>"

definition tab_b :: tab where
  "tab_b = \<lparr>tab_title = ''System Architecture Analysis'', tab_content = section_body (CHR ''b''),
            word_count = 100, tab_agent = ''System Architecture Agent'', section_number = Some 2\<rparr>"

lemma rejects_initial:
  "\<not> rejects \<lparr>tabs_built = [], full_content_parts = ps, created_tabs = [], seen_hashes = {},
               seen_titles = {}, section_count = n\<rparr> t c"
  by (simp add: rejects_def)

lemma first_step:
  "snd (try_add_tab (initial_assembly toc) ''Code Architecture Analysis''
          (section_body (CHR ''a'')) ''Code Architecture Agent'')
     = \<lparr>tabs_built = [tab_a],
        full_content_parts =
          [toc @ ''\<newline>\<newline>---\<newline>'', ''# 1. Code Architecture Analysis\<newline>'',
           section_body (CHR ''a''), ''\<newline>\<newline>---\<newline>''],
        created_tabs = [tab_a],
        seen_hashes = {''3a67785ad8aef5b8775cf6c478294c1a''},
        seen_titles = {''code architecture''},
        section_count = 2\<rparr>"
  by (simp add: try_add_tab_eq rejects_initial accepted_def new_tab_def initial_assembly_def
      tab_a_def words_a fingerprint_a normalized_titles section_digits)

lemma second_step:
  "snd (try_add_tab
          \<lparr>tabs_built = [tab_a],
            full_content_parts =
              [toc @ ''\<newline>\<newline>---\<newline>'', ''# 1. Code Architecture Analysis\<newline>'',
               section_body (CHR ''a''), ''\<newline>\<newline>---\<newline>''],
            created_tabs = [tab_a],
            seen_hashes = {''3a67785ad8aef5b8775cf6c478294c1a''},
            seen_titles = {''code architecture''},
            section_count = 2\<rparr>
          ''System Architecture Analysis'' (section_body (CHR ''b'')) ''System Architecture Agent'')
     = \<lparr>tabs_built = [tab_a, tab_b],
        full_content_parts =
          [toc @ ''\<newline>\<newline>---\<newline>'', ''# 1. Code Architecture Analysis\<newline>'',
           section_body (CHR ''a''), ''\<newline>\<newline>---\<newline>'',
           ''# 2. System Architecture Analysis\<newline>'',
           section_body (CHR ''b''), ''\<newline>\<newline>---\<newline>''],
        created_tabs = [tab_a, tab_b],
        seen_hashes = {''5cdfe1437e1070d57f03e4ea7494c265'', ''3a67785ad8aef5b8775cf6c478294c1a''},
        seen_titles = {''system architecture'', ''code architecture''},
        section_count = 3\<rparr>"
  by (simp add: try_add_tab_eq rejects_def accepted_def new_tab_def tab_a_def tab_b_def
      too_similar_def Let_def word_set_a word_set_b words_b fingerprint_b normalized_titles
      section_digits)

definition two_tabs_state :: "string \<Rightarrow> assembly" where
  "two_tabs_state toc =
     \<lparr>tabs_built = [tab_a, tab_b],
      full_content_parts =
        [toc @ ''\<newline>\<newline>---\<newline>'', ''# 1. Code Architecture Analysis\<newline>'',
         section_body (CHR ''a''), ''\<newline>\<newline>---\<newline>'',
         ''# 2. System Architecture Analysis\<newline>'',
         section_body (CHR ''b''), ''\<newline>\<newline>---\<newline>''],
      created_tabs = [tab_a, tab_b],
      seen_hashes = {''5cdfe1437e1070d57f03e4ea7494c265'', ''3a67785ad8aef5b8775cf6c478294c1a''},
      seen_titles = {''system architecture'', ''code architecture''},
      section_count = 3\<rparr>"

lemma build_two_results: "build_tabs toc two_results = two_tabs_state toc"
  by (simp add: build_tabs_def section_order_def two_results_def add_ordered_def add_other_def
      has_key_def lookup_content_def result_a_def result_b_def strip_a strip_b title_a title_b
      first_step second_step two_tabs_state_def)

lemma accepted_two_results:
  "accepted_sections (assemble_final_documentation stamp three_results demo_project)
     = [tab_a, tab_b]"
  by (simp add: accepted_sections_def assemble_tabs validate_three Let_def build_two_results
      two_tabs_state_def two_results_nonempty overview_tab_def tab_a_def tab_b_def)

theorem accepted_sections_no_duplicates_witness:
  "length (accepted_sections
      (assemble_final_documentation ''2024-05-01 12:00:00'' three_results demo_project)) = 2
   \<and> fingerprint (section_body (CHR ''a'')) \<noteq> fingerprint (section_body (CHR ''b''))
   \<and> 20 * card (word_set (section_body (CHR ''a'')) \<inter> word_set (section_body (CHR ''b'')))
       \<le> 13 * max (card (word_set (section_body (CHR ''a''))))
                   (card (word_set (section_body (CHR ''b''))))
   \<and> normalize_title ''Glossary'' \<notin> seen_titles (two_tabs_state ''Contents'')
   \<and> fingerprint ''a a'' \<notin> seen_hashes (two_tabs_state ''Contents'')
   \<and> try_add_tab (two_tabs_state ''Contents'') ''Glossary'' ''a a'' ''Glossary Agent''
       = (False, two_tabs_state ''Contents'')"
proof -
  note inst = accepted_sections_no_duplicates
    [of "''2024-05-01 12:00:00''" three_results demo_project "''a a''"
      "two_tabs_state ''Contents''" "''Glossary''" "''Glossary Agent''"]
  have acc: "accepted_sections
      (assemble_final_documentation ''2024-05-01 12:00:00'' three_results demo_project)
        = [tab_a, tab_b]"
    by (rule accepted_two_results)
  have similar: "list_ex (\<lambda>existing. too_similar (tab_content existing) ''a a'')
      (created_tabs (two_tabs_state ''Contents''))"
    by (simp add: two_tabs_state_def tab_a_def too_similar_def Let_def word_set_a word_set_aa)
  from inst similar have "try_add_tab (two_tabs_state ''Contents'') ''Glossary'' ''a a''
      ''Glossary Agent'' = (False, two_tabs_state ''Contents'')"
    by blast
  moreover from inst have "fingerprint (tab_content ([tab_a, tab_b] ! 0))
        \<noteq> fingerprint (tab_content ([tab_a, tab_b] ! 1))
      \<and> 20 * card (word_set (tab_content ([tab_a, tab_b] ! 0))
              \<inter> word_set (tab_content ([tab_a, tab_b] ! 1)))
          \<le> 13 * max (card (word_set (tab_content ([tab_a, tab_b] ! 0))))
                      (card (word_set (tab_content ([tab_a, tab_b] ! 1))))"
    unfolding acc by (elim conjE allE [of _ 1] allE [of _ 0]) simp
  ultimately show ?thesis
    by (simp add: acc tab_a_def tab_b_def two_tabs_state_def normalized_titles fingerprint_aa)
qed

section \<open>The run with two valid results, claim by claim\<close>

lemma tabs_three_results:
  "tabs (assemble_final_documentation stamp three_results demo_project)
     = [overview_tab (full_toc stamp two_results demo_project), tab_a, tab_b]"
  by (simp add: assemble_tabs validate_three Let_def build_two_results two_tabs_state_def
      two_results_nonempty)

text \<open>C2: two invocations at different times give different texts.\<close>

theorem assembly_text_depends_on_clock:
  "content (assemble_final_documentation ''2024-05-01 12:00:00'' three_results demo_project)
     \<noteq> content (assemble_final_documentation ''2024-05-01 12:00:01'' three_results demo_project)"
  using content_equal_iff [of three_results "''2024-05-01 12:00:00''" demo_project
      "''2024-05-01 12:00:01''"]
  by (simp add: validate_three two_results_nonempty)

theorem assembly_deterministic_up_to_clock_witness:
  "validate_results three_results \<noteq> []
   \<and> map tab_title (tabs (assemble_final_documentation ''2024-05-01 12:00:00''
        three_results demo_project))
     = map tab_title (tabs (assemble_final_documentation ''2024-05-01 12:00:01''
        three_results demo_project))
   \<and> (content (assemble_final_documentation ''2024-05-01 12:00:00'' three_results demo_project)
         = content (assemble_final_documentation ''2024-05-01 12:00:01'' three_results demo_project))
       = (''2024-05-01 12:00:00'' = ''2024-05-01 12:00:01'')"
  using assembly_deterministic_up_to_clock [of "''2024-05-01 12:00:00''" three_results
      demo_project "''2024-05-01 12:00:01''"]
  by (simp add: validate_three two_results_nonempty)

text \<open>C4: the numbers of the three tabs are those of the two built tabs.\<close>

theorem section_numbers_of_built_tabs_witness:
  "numbers (tabs (assemble_final_documentation ''2024-05-01 12:00:00'' three_results demo_project))
     = [1, 2]
   \<and> map section_number
       (tabs (assemble_final_documentation ''2024-05-01 12:00:00'' three_results demo_project))
     = [None, Some 1, Some 2]"
proof -
  have len: "length (numbers (tabs (assemble_final_documentation ''2024-05-01 12:00:00''
      three_results demo_project))) = 2"
    by (simp add: tabs_three_results numbers_Cons overview_tab_def tab_a_def tab_b_def)
  note inst = section_numbers_of_built_tabs
    [where stamp = "''2024-05-01 12:00:00''" and e = three_results
      and project_data = demo_project, THEN conjunct2, THEN conjunct1]
  have "numbers (tabs (assemble_final_documentation ''2024-05-01 12:00:00'' three_results
      demo_project)) = [1..<Suc 2]"
    using inst unfolding len .
  then show ?thesis
    by (simp add: tabs_three_results overview_tab_def tab_a_def tab_b_def upt_rec)
qed

text \<open>C7: the overview tabs have fewer than 100 words, on the simulation path and
  in the assembled document.\<close>

lemma simulated_overview_words:
  "word_count (hd (tabs (simulate_comprehensive_generation
      \<lparr>strftime_now = ''2024-05-01 12:00:00'', isoformat_now = ''2024-05-01T12:00:00'',
        elapsed_ms = 3000\<rparr> demo_project))) = 37"
proof -
  have "length (str_split (str_join ''\<newline>''
      (simulation_header ''2024-05-01 12:00:00'' demo_project
         @ [''1. Code Architecture Analysis'']))) = 37"
    by code_simp
  then show ?thesis
    by (simp add: simulate_comprehensive_generation_def Let_def simulation_header_def
        agent_sections_def simulated_parts_def enumerate_eq_zip upt_rec section_digits)
qed

lemma assembled_overview_words:
  "length (str_split (full_toc ''2024-05-01 12:00:00'' two_results demo_project)) = 32"
proof -
  have "toc_lines ''2024-05-01 12:00:00'' two_results demo_project
      = toc_lines ''2024-05-01 12:00:00''
          [(''Code Architecture Agent'', \<lparr>res_content = [], res_tokens = 0\<rparr>),
           (''System Architecture Agent'', \<lparr>res_content = [], res_tokens = 0\<rparr>)] demo_project"
    by (simp add: toc_lines_def two_results_def has_key_def)
  moreover have "length (str_split (str_join ''\<newline>'' (toc_lines ''2024-05-01 12:00:00''
          [(''Code Architecture Agent'', \<lparr>res_content = [], res_tokens = 0\<rparr>),
           (''System Architecture Agent'', \<lparr>res_content = [], res_tokens = 0\<rparr>)]
          demo_project))) = 32"
    by code_simp
  ultimately show ?thesis
    by (simp add: full_toc_def)
qed

theorem overview_tabs_below_100_words:
  "word_count (hd (tabs (generate_comprehensive_documentation
      \<lparr>strftime_now = ''2024-05-01 12:00:00'', isoformat_now = ''2024-05-01T12:00:00'',
        elapsed_ms = 3000\<rparr> False [] demo_project))) = 37
   \<and> word_count (hd (tabs (assemble_final_documentation ''2024-05-01 12:00:00''
        three_results demo_project))) = 32
   \<and> \<not> (100 \<le> word_count (hd (tabs (generate_comprehensive_documentation
      \<lparr>strftime_now = ''2024-05-01 12:00:00'', isoformat_now = ''2024-05-01T12:00:00'',
        elapsed_ms = 3000\<rparr> False [] demo_project))))"
  by (simp add: generate_comprehensive_documentation_def simulated_overview_words
      tabs_three_results overview_tab_def assembled_overview_words)

theorem tabs_nonempty_and_built_tabs_100_words_witness:
  "tab_a \<in> set (tabs (assemble_final_documentation ''2024-05-01 12:00:00''
      three_results demo_project))
   \<and> section_number tab_a \<noteq> None \<and> 100 \<le> word_count tab_a
   \<and> length (non_heading_words (str_strip (res_content result_short))) < 100
   \<and> ''API Integration Agent'' \<notin> tab_agent ` set (accepted_sections
        (assemble_final_documentation ''2024-05-01 12:00:00'' three_results demo_project))"
proof -
  have short: "\<forall>r. (''API Integration Agent'', r) \<in> set three_results
      \<longrightarrow> length (non_heading_words (str_strip (res_content r))) < 100"
    by (simp add: three_results_def short_words)
  from tabs_nonempty_and_built_tabs_100_words
    [where a = "''API Integration Agent''" and e = three_results
      and stamp = "''2024-05-01 12:00:00''" and project_data = demo_project]
    short
  have "\<forall>t \<in> set (tabs (assemble_final_documentation ''2024-05-01 12:00:00''
      three_results demo_project)). section_number t \<noteq> None \<longrightarrow> tab_agent t \<noteq> ''API Integration Agent''"
    by blast
  then have "''API Integration Agent'' \<notin> tab_agent ` set (accepted_sections
        (assemble_final_documentation ''2024-05-01 12:00:00'' three_results demo_project))"
    by (auto simp: accepted_sections_def)
  then show ?thesis
    by (simp add: tabs_three_results tab_a_def short_words)
qed

text \<open>C10: a run in which the task of the API agent raised.\<close>

theorem failed_agent_never_a_section_witness:
  "(''API Integration Agent'', Raised ''timeout'') \<in> set
      [(''Code Architecture Agent'', Returned (section_body (CHR ''a'')) 10),
       (''API Integration Agent'', Raised ''timeout'')]
   \<and> ''API Integration Agent'' \<in> fst ` set agent_configs
   \<and> \<not> is_valid \<lparr>res_content = failure_placeholder ''API Integration Agent'' ''timeout'',
                   res_tokens = 0\<rparr>
   \<and> ''API Integration Agent'' \<notin> tab_agent ` set (tabs (generate_comprehensive_documentation
        \<lparr>strftime_now = ''2024-05-01 12:00:00'', isoformat_now = ''2024-05-01T12:00:00'',
          elapsed_ms = 3000\<rparr> True
        [(''Code Architecture Agent'', Returned (section_body (CHR ''a'')) 10),
         (''API Integration Agent'', Raised ''timeout'')]
        demo_project))"
proof -
  have raised: "\<forall>fr. (''API Integration Agent'', fr) \<in> set
      [(''Code Architecture Agent'', Returned (section_body (CHR ''a'')) 10),
       (''API Integration Agent'', Raised ''timeout'')] \<longrightarrow> (\<exists>e. fr = Raised e)"
    by simp
  have roster: "''API Integration Agent'' \<in> fst ` set agent_configs"
    by (simp add: agent_configs_def)
  from failed_agent_never_a_section [OF raised roster, where e = "''timeout''" and cs = "[]"
      and project_data = demo_project and client = True
      and clk = "\<lparr>strftime_now = ''2024-05-01 12:00:00'', isoformat_now = ''2024-05-01T12:00:00'',
        elapsed_ms = 3000\<rparr>"]
  show ?thesis
    using roster by auto
qed

section \<open>Where the images go\<close>


















end
